theory Spec2Isabelle
  imports Complex_Main "HOL-Library.AList" "HOL-Library.Sublist"
begin

section \<open>JavaScript values\<close>

text \<open>
  The values that \<^verbatim>\<open>JSON.parse\<close> returns. An object lists its own properties; a number is
  the real it denotes. \<open>None\<close> of type \<open>json option\<close> stands for \<^verbatim>\<open>undefined\<close>.
  Strings are lists of 8-bit characters, so text beyond ASCII is held in its UTF-8 encoding.
\<close>

datatype json =
    JNull
  | JBool bool
  | JNumber real
  | JString string
  | JArray "json list"
  | JObject "(string \<times> json) list"

text \<open>The truthiness test of \<^verbatim>\<open>if (v)\<close>.\<close>

fun truthy :: "json option \<Rightarrow> bool" where
  "truthy None = False"
| "truthy (Some JNull) = False"
| "truthy (Some (JBool b)) = b"
| "truthy (Some (JNumber n)) = (n \<noteq> 0)"
| "truthy (Some (JString s)) = (s \<noteq> [])"
| "truthy (Some (JArray xs)) = True"
| "truthy (Some (JObject kvs)) = True"

text \<open>
  \<open>member v k\<close> is \<^verbatim>\<open>v.k\<close> for a value \<open>v\<close> that is not \<^verbatim>\<open>null\<close>, and for the property
  names this program reads (\<^verbatim>\<open>type\<close>, \<^verbatim>\<open>delta\<close>, \<^verbatim>\<open>text\<close>, \<^verbatim>\<open>choices\<close>, \<^verbatim>\<open>content\<close>, \<^verbatim>\<open>message\<close>,
  \<^verbatim>\<open>done\<close>): none of them is on a prototype, so only an object can have them.
  On \<^verbatim>\<open>null\<close> the read throws a TypeError; the callers test for \<open>JNull\<close> first.
\<close>

fun member :: "json \<Rightarrow> string \<Rightarrow> json option" where
  "member (JObject kvs) k = map_of kvs k"
| "member v k = None"

text \<open>\<^verbatim>\<open>v?.k\<close>: \<^verbatim>\<open>undefined\<close> when \<open>v\<close> is \<^verbatim>\<open>undefined\<close> or \<^verbatim>\<open>null\<close>.\<close>

fun opt_member :: "json option \<Rightarrow> string \<Rightarrow> json option" where
  "opt_member None k = None"
| "opt_member (Some JNull) k = None"
| "opt_member (Some v) k = member v k"

text \<open>
  \<^verbatim>\<open>v?.[0]\<close>: the first element of an array, the first character of a string, the
  property \<^verbatim>\<open>"0"\<close> of an object.
\<close>

fun opt_index0 :: "json option \<Rightarrow> json option" where
  "opt_index0 (Some (JArray xs)) = (case xs of [] \<Rightarrow> None | x # _ \<Rightarrow> Some x)"
| "opt_index0 (Some (JString s)) = (case s of [] \<Rightarrow> None | c # _ \<Rightarrow> Some (JString [c]))"
| "opt_index0 (Some (JObject kvs)) = map_of kvs ''0''"
| "opt_index0 v = None"

section \<open>Strings\<close>

definition newline :: char where
  "newline = CHR 0x0A"

text \<open>\<^verbatim>\<open>s.startsWith(p)\<close>.\<close>

definition startsWith :: "string \<Rightarrow> string \<Rightarrow> bool" where
  "startsWith s p = (take (length p) s = p)"

text \<open>
  \<^verbatim>\<open>s.split(sep)\<close> for a one-character separator: never empty, \<^verbatim>\<open>"".split("\n")\<close> is
  \<^verbatim>\<open>[""]\<close>.
\<close>

fun js_split :: "char \<Rightarrow> string \<Rightarrow> string list" where
  "js_split sep [] = [[]]"
| "js_split sep (c # cs) =
     (if c = sep then [] # js_split sep cs
      else (case js_split sep cs of
              [] \<Rightarrow> [[c]]
            | l # ls \<Rightarrow> (c # l) # ls))"

text \<open>
  \<^verbatim>\<open>buffer = lines.pop() || ""\<close> removes the last element of \<^verbatim>\<open>lines\<close> and keeps it as
  the buffer; \<open>pop_rest\<close> is what stays in \<^verbatim>\<open>lines\<close>.
\<close>

definition pop_or_empty :: "string list \<Rightarrow> string" where
  "pop_or_empty lines = (if lines = [] then [] else last lines)"

definition pop_rest :: "string list \<Rightarrow> string list" where
  "pop_rest lines = butlast lines"

text \<open>
  The white space and line terminators that \<^verbatim>\<open>trim\<close> removes, each in its UTF-8 encoding:
  tab, line feed, vertical tab, form feed, carriage return, space, U+00A0, U+1680, U+2000 to
  U+200A, U+2028, U+2029, U+202F, U+205F, U+3000 and U+FEFF.
\<close>

definition js_whitespace :: "string list" where
  "js_whitespace =
     [[CHR 0x09], [CHR 0x0A], [CHR 0x0B], [CHR 0x0C], [CHR 0x0D], [CHR 0x20],
      [CHR 0xC2, CHR 0xA0], [CHR 0xE1, CHR 0x9A, CHR 0x80],
      [CHR 0xE2, CHR 0x80, CHR 0x80], [CHR 0xE2, CHR 0x80, CHR 0x81],
      [CHR 0xE2, CHR 0x80, CHR 0x82], [CHR 0xE2, CHR 0x80, CHR 0x83],
      [CHR 0xE2, CHR 0x80, CHR 0x84], [CHR 0xE2, CHR 0x80, CHR 0x85],
      [CHR 0xE2, CHR 0x80, CHR 0x86], [CHR 0xE2, CHR 0x80, CHR 0x87],
      [CHR 0xE2, CHR 0x80, CHR 0x88], [CHR 0xE2, CHR 0x80, CHR 0x89],
      [CHR 0xE2, CHR 0x80, CHR 0x8A], [CHR 0xE2, CHR 0x80, CHR 0xA8],
      [CHR 0xE2, CHR 0x80, CHR 0xA9], [CHR 0xE2, CHR 0x80, CHR 0xAF],
      [CHR 0xE2, CHR 0x81, CHR 0x9F], [CHR 0xE3, CHR 0x80, CHR 0x80],
      [CHR 0xEF, CHR 0xBB, CHR 0xBF]]"

text \<open>Removing from the start of \<open>s\<close> every leading occurrence of one of the sequences \<open>ws\<close>.\<close>

function strip_start :: "string list \<Rightarrow> string \<Rightarrow> string" where
  "strip_start ws s =
     (case List.find (\<lambda>w. w \<noteq> [] \<and> startsWith s w) ws of
        None \<Rightarrow> s
      | Some w \<Rightarrow> strip_start ws (drop (length w) s))"
  by pat_completeness auto
termination
proof (relation "measure (\<lambda>(ws, s). length s)")
  show "wf (measure (\<lambda>(ws, s). length s))" by simp
next
  fix ws :: "string list" and s w :: string
  assume "List.find (\<lambda>w. w \<noteq> [] \<and> startsWith s w) ws = Some w"
  then have "w \<noteq> []" and "take (length w) s = w"
    by (auto simp: find_Some_iff startsWith_def)
  then have "s \<noteq> []" by auto
  with \<open>w \<noteq> []\<close> show "((ws, drop (length w) s), (ws, s)) \<in> measure (\<lambda>(ws, s). length s)"
    by simp
qed

declare strip_start.simps [simp del]

definition trim :: "string \<Rightarrow> string" where
  "trim s = rev (strip_start (map rev js_whitespace) (rev (strip_start js_whitespace s)))"

text \<open>\<^verbatim>\<open>n.toString()\<close> and \<^verbatim>\<open>`${n}`\<close> for a natural number.\<close>

fun show_nat :: "nat \<Rightarrow> string" where
  "show_nat n =
     (if n < 10 then [''0123456789'' ! n]
      else show_nat (n div 10) @ [''0123456789'' ! (n mod 10)])"

text \<open>\<^verbatim>\<open>v || d\<close> for an optional string: the default replaces \<^verbatim>\<open>undefined\<close> and \<^verbatim>\<open>""\<close>.\<close>

definition or_default :: "string option \<Rightarrow> string \<Rightarrow> string" where
  "or_default v d = (case v of None \<Rightarrow> d | Some s \<Rightarrow> if s = [] then d else s)"

section \<open>The platform seen by one call\<close>

text \<open>
  A request as \<^verbatim>\<open>fetch\<close> receives it; \<open>payload\<close> is the value handed to
  \<^verbatim>\<open>JSON.stringify\<close> for the body.
\<close>

record request =
  url :: string
  http_method :: string
  headers :: "(string \<times> string) list"
  payload :: json

text \<open>
  One \<^verbatim>\<open>reader.read()\<close> either delivers bytes or rejects; the end of the list is
  \<^verbatim>\<open>{ done: true }\<close>. A \<^verbatim>\<open>Uint8Array\<close> is a list of 8-bit characters.
\<close>

datatype read_result = Value string | ReadRejects string

record response =
  status :: nat
  statusText :: string
  body :: "read_result list option"

text \<open>\<^verbatim>\<open>response.ok\<close>: the status is in the range 200 to 299.\<close>

definition ok :: "response \<Rightarrow> bool" where
  "ok r = (200 \<le> status r \<and> status r \<le> 299)"

datatype fetch_result = FetchRejects string | Response response

text \<open>
  What the code takes from the platform: \<^verbatim>\<open>JSON.parse\<close> (\<open>None\<close> when it throws a
  SyntaxError), a \<^verbatim>\<open>TextDecoder\<close> whose state \<open>'d\<close> carries an incomplete byte sequence from
  one \<^verbatim>\<open>decode(value, { stream: true })\<close> to the next, and \<^verbatim>\<open>fetch\<close>. A rejection carries
  the text that \<^verbatim>\<open>`${error}`\<close> prints.
\<close>

record 'd runtime =
  JSON_parse :: "string \<Rightarrow> json option"
  decode :: "'d \<Rightarrow> string \<Rightarrow> string \<times> 'd"
  new_TextDecoder :: 'd
  fetch :: "request \<Rightarrow> fetch_result"

section \<open>Chunks and generators\<close>

text \<open>
  A chunk \<^verbatim>\<open>{ type: "text", text }\<close> or \<^verbatim>\<open>{ type: "error", text }\<close>. The text of a text chunk
  is whatever value the frame held at the delta path. A generator run to its end is the
  list of chunks it yielded and the exception it threw to its consumer, if any.
\<close>

datatype chunk = Text json | Error string

type_synonym generated = "chunk list \<times> string option"

text \<open>\<^verbatim>\<open>if (v) { yield { type: "text", text: v } }\<close>.\<close>

definition yield_if :: "json option \<Rightarrow> chunk list" where
  "yield_if v = (case v of None \<Rightarrow> [] | Some t \<Rightarrow> if truthy (Some t) then [Text t] else [])"

text \<open>
  \<^verbatim>\<open>for (const line of lines)\<close>: each line yields chunks and may \<^verbatim>\<open>return\<close> from the
  generator (the flag), which skips the remaining lines.
\<close>

fun for_lines :: "(string \<Rightarrow> chunk list \<times> bool) \<Rightarrow> string list \<Rightarrow> chunk list \<times> bool" where
  "for_lines on_line [] = ([], False)"
| "for_lines on_line (l # ls) =
     (case on_line l of
        (cs, True) \<Rightarrow> (cs, True)
      | (cs, False) \<Rightarrow> (case for_lines on_line ls of (ds, r) \<Rightarrow> (cs @ ds, r)))"

text \<open>
  \<^verbatim>\<open>while (true) { const { done, value } = await reader.read(); if (done) break; ... }\<close>.
  The result is the chunks yielded and the exception thrown by a rejected read.
\<close>

fun read_loop ::
  "('d \<Rightarrow> string \<Rightarrow> string \<times> 'd) \<Rightarrow> (string \<Rightarrow> chunk list \<times> bool) \<Rightarrow> 'd \<Rightarrow> string \<Rightarrow>
   read_result list \<Rightarrow> generated" where
  "read_loop dec on_line d buffer [] = ([], None)"
| "read_loop dec on_line d buffer (ReadRejects e # reads) = ([], Some e)"
| "read_loop dec on_line d buffer (Value v # reads) =
     (case dec d v of (txt, d') \<Rightarrow>
        (let lines = js_split newline (buffer @ txt) in
         (case for_lines on_line (pop_rest lines) of
            (cs, True) \<Rightarrow> (cs, None)
          | (cs, False) \<Rightarrow>
              (case read_loop dec on_line d' (pop_or_empty lines) reads of
                 (ds, e) \<Rightarrow> (cs @ ds, e)))))"

text \<open>
  The body of the \<^verbatim>\<open>try\<close> block shared by the four network handlers: the request, the
  status check, the reader, the read loop.
\<close>

definition try_block :: "'d runtime \<Rightarrow> request \<Rightarrow> (string \<Rightarrow> chunk list \<times> bool) \<Rightarrow> generated" where
  "try_block R req on_line =
     (case fetch R req of
        FetchRejects e \<Rightarrow> ([], Some e)
      | Response r \<Rightarrow>
          if \<not> ok r then
            ([], Some (''Error: API request failed: '' @ show_nat (status r) @ '' '' @ statusText r))
          else (case body r of
                  None \<Rightarrow> ([], Some ''Error: No response body'')
                | Some reads \<Rightarrow> read_loop (decode R) on_line (new_TextDecoder R) [] reads))"

text \<open>\<^verbatim>\<open>catch (error) { yield { type: "error", text: `Error: ${error}` } }\<close>.\<close>

definition catch_yield :: "generated \<Rightarrow> generated" where
  "catch_yield g =
     (case g of
        (cs, None) \<Rightarrow> (cs, None)
      | (cs, Some e) \<Rightarrow> (cs @ [Error (''Error: '' @ e)], None))"

section \<open>The provider handlers\<close>

record ApiConfiguration =
  apiProvider :: "string option"
  apiKey :: "string option"
  apiModelId :: "string option"
  openAiNativeApiKey :: "string option"
  ollamaBaseUrl :: "string option"

text \<open>Each handler with the fields its constructor sets: key (or base URL) and model.\<close>

datatype SimpleApiHandler =
    AnthropicSimpleHandler string string
  | OpenAISimpleHandler string string
  | SiliconFlowSimpleHandler string string
  | OllamaSimpleHandler string string
  | MockSimpleHandler ApiConfiguration

definition new_AnthropicSimpleHandler :: "ApiConfiguration \<Rightarrow> SimpleApiHandler" where
  "new_AnthropicSimpleHandler config =
     AnthropicSimpleHandler (or_default (apiKey config) [])
       (or_default (apiModelId config) ''claude-3-5-sonnet-20241022'')"

definition new_OpenAISimpleHandler :: "ApiConfiguration \<Rightarrow> SimpleApiHandler" where
  "new_OpenAISimpleHandler config =
     OpenAISimpleHandler (or_default (openAiNativeApiKey config) [])
       (or_default (apiModelId config) ''gpt-4o'')"

definition new_SiliconFlowSimpleHandler :: "ApiConfiguration \<Rightarrow> SimpleApiHandler" where
  "new_SiliconFlowSimpleHandler config =
     SiliconFlowSimpleHandler (or_default (apiKey config) [])
       (or_default (apiModelId config) ''Qwen/Qwen2.5-7B-Instruct'')"

definition new_OllamaSimpleHandler :: "ApiConfiguration \<Rightarrow> SimpleApiHandler" where
  "new_OllamaSimpleHandler config =
     OllamaSimpleHandler (or_default (ollamaBaseUrl config) ''http://localhost:11434'')
       (or_default (apiModelId config) ''llama3.2'')"

fun getModel :: "SimpleApiHandler \<Rightarrow> string" where
  "getModel (AnthropicSimpleHandler k m) = m"
| "getModel (OpenAISimpleHandler k m) = m"
| "getModel (SiliconFlowSimpleHandler k m) = m"
| "getModel (OllamaSimpleHandler b m) = m"
| "getModel (MockSimpleHandler config) = or_default (apiModelId config) ''mock-model''"

text \<open>The message list of the OpenAI-style body.\<close>

definition chat_messages :: "string \<Rightarrow> string \<Rightarrow> json" where
  "chat_messages systemPrompt userMessage =
     JArray [JObject [(''role'', JString ''system''), (''content'', JString systemPrompt)],
             JObject [(''role'', JString ''user''), (''content'', JString userMessage)]]"

fun request_of :: "SimpleApiHandler \<Rightarrow> string \<Rightarrow> string \<Rightarrow> request" where
  "request_of (AnthropicSimpleHandler k m) systemPrompt userMessage =
     \<lparr>url = ''https://api.anthropic.com/v1/messages'', http_method = ''POST'',
      headers = [(''Content-Type'', ''application/json''), (''x-api-key'', k),
                 (''anthropic-version'', ''2023-06-01'')],
      payload = JObject [(''model'', JString m), (''max_tokens'', JNumber 4096),
                         (''system'', JString systemPrompt),
                         (''messages'', JArray [JObject [(''role'', JString ''user''),
                                                         (''content'', JString userMessage)]]),
                         (''stream'', JBool True)]\<rparr>"
| "request_of (OpenAISimpleHandler k m) systemPrompt userMessage =
     \<lparr>url = ''https://api.openai.com/v1/chat/completions'', http_method = ''POST'',
      headers = [(''Content-Type'', ''application/json''), (''Authorization'', ''Bearer '' @ k)],
      payload = JObject [(''model'', JString m),
                         (''messages'', chat_messages systemPrompt userMessage),
                         (''stream'', JBool True)]\<rparr>"
| "request_of (SiliconFlowSimpleHandler k m) systemPrompt userMessage =
     \<lparr>url = ''https://api.siliconflow.cn/v1/chat/completions'', http_method = ''POST'',
      headers = [(''Content-Type'', ''application/json''), (''Authorization'', ''Bearer '' @ k)],
      payload = JObject [(''model'', JString m),
                         (''messages'', chat_messages systemPrompt userMessage),
                         (''stream'', JBool True)]\<rparr>"
| "request_of (OllamaSimpleHandler b m) systemPrompt userMessage =
     \<lparr>url = b @ ''/api/chat'', http_method = ''POST'',
      headers = [(''Content-Type'', ''application/json'')],
      payload = JObject [(''model'', JString m),
                         (''messages'', chat_messages systemPrompt userMessage),
                         (''stream'', JBool True)]\<rparr>"
| "request_of (MockSimpleHandler config) systemPrompt userMessage =
     \<lparr>url = [], http_method = [], headers = [], payload = JNull\<rparr>"

text \<open>
  The value each handler tests and yields: \<^verbatim>\<open>parsed.delta?.text\<close> (behind the test of
  \<^verbatim>\<open>parsed.type\<close>), \<^verbatim>\<open>parsed.choices?.[0]?.delta?.content\<close>, \<^verbatim>\<open>parsed.message?.content\<close>,
  for a \<open>parsed\<close> that is not \<^verbatim>\<open>null\<close>.
\<close>

definition Anthropic_delta :: "json \<Rightarrow> json option" where
  "Anthropic_delta parsed = opt_member (member parsed ''delta'') ''text''"

definition OpenAI_delta :: "json \<Rightarrow> json option" where
  "OpenAI_delta parsed =
     opt_member (opt_member (opt_index0 (member parsed ''choices'')) ''delta'') ''content''"

definition Ollama_delta :: "json \<Rightarrow> json option" where
  "Ollama_delta parsed = opt_member (member parsed ''message'') ''content''"

text \<open>
  The body of the \<^verbatim>\<open>for\<close> loop of the Anthropic handler. A SyntaxError of \<^verbatim>\<open>JSON.parse\<close> and
  the TypeError of reading a property of \<^verbatim>\<open>null\<close> are caught by the inner \<^verbatim>\<open>try\<close>.
\<close>

definition Anthropic_line :: "(string \<Rightarrow> json option) \<Rightarrow> string \<Rightarrow> chunk list \<times> bool" where
  "Anthropic_line parse line =
     (if startsWith line ''data: '' then
        (let data = drop 6 line in
         if data = ''[DONE]'' then ([], True)
         else (case parse data of
                 None \<Rightarrow> ([], False)
               | Some parsed \<Rightarrow>
                   if parsed = JNull then ([], False)
                   else if member parsed ''type'' = Some (JString ''content_block_delta'')
                   then (yield_if (Anthropic_delta parsed), False)
                   else ([], False)))
      else ([], False))"

text \<open>The same loop body in the OpenAI handler and, word for word, in the SiliconFlow handler.\<close>

definition OpenAI_line :: "(string \<Rightarrow> json option) \<Rightarrow> string \<Rightarrow> chunk list \<times> bool" where
  "OpenAI_line parse line =
     (if startsWith line ''data: '' then
        (let data = drop 6 line in
         if data = ''[DONE]'' then ([], True)
         else (case parse data of
                 None \<Rightarrow> ([], False)
               | Some parsed \<Rightarrow>
                   if parsed = JNull then ([], False)
                   else (yield_if (OpenAI_delta parsed), False)))
      else ([], False))"

text \<open>
  The Ollama handler parses every line that is not blank, yields the content and then
  returns when \<^verbatim>\<open>parsed.done\<close> is truthy.
\<close>

definition Ollama_line :: "(string \<Rightarrow> json option) \<Rightarrow> string \<Rightarrow> chunk list \<times> bool" where
  "Ollama_line parse line =
     (if trim line \<noteq> [] then
        (case parse line of
           None \<Rightarrow> ([], False)
         | Some parsed \<Rightarrow>
             if parsed = JNull then ([], False)
             else (yield_if (Ollama_delta parsed), truthy (member parsed ''done'')))
      else ([], False))"

fun on_line :: "SimpleApiHandler \<Rightarrow> (string \<Rightarrow> json option) \<Rightarrow> string \<Rightarrow> chunk list \<times> bool" where
  "on_line (AnthropicSimpleHandler k m) parse = Anthropic_line parse"
| "on_line (OpenAISimpleHandler k m) parse = OpenAI_line parse"
| "on_line (SiliconFlowSimpleHandler k m) parse = OpenAI_line parse"
| "on_line (OllamaSimpleHandler b m) parse = Ollama_line parse"
| "on_line (MockSimpleHandler config) parse = (\<lambda>line. ([], False))"

text \<open>The text of the mock handler's only chunk.\<close>

definition mock_text :: "ApiConfiguration \<Rightarrow> string \<Rightarrow> string" where
  \<open>mock_text config userMessage =
     ''This is a mock response for provider "''
     @ (case apiProvider config of None \<Rightarrow> ''undefined'' | Some p \<Rightarrow> p)
     @ ''". \<newline>\<newline>Your request: "'' @ userMessage
     @ ''"\<newline>\<newline>To use the full Cline experience with real AI responses, please:\<newline>''
     @ ''1. Configure a supported provider (anthropic, openai-native, or ollama)\<newline>''
     @ ''2. Provide valid API credentials\<newline>''
     @ ''3. Or use the VSCode extension version for full functionality\<newline>\<newline>''
     @ ''Supported providers in CLI:\<newline>''
     @ ''- anthropic: Requires API key\<newline>''
     @ ''- openai-native: Requires API key  \<newline>''
     @ ''- ollama: Requires local Ollama server running\<newline>\<newline>''
     @ ''Current provider: '' @ or_default (apiProvider config) ''none''\<close>

fun createMessage :: "'d runtime \<Rightarrow> SimpleApiHandler \<Rightarrow> string \<Rightarrow> string \<Rightarrow> generated" where
  "createMessage R (MockSimpleHandler config) systemPrompt userMessage =
     ([Text (JString (mock_text config userMessage))], None)"
| "createMessage R h systemPrompt userMessage =
     catch_yield (try_block R (request_of h systemPrompt userMessage) (on_line h (JSON_parse R)))"

section \<open>The dispatcher\<close>

definition buildSimpleApiHandler :: "ApiConfiguration \<Rightarrow> SimpleApiHandler" where
  "buildSimpleApiHandler config =
     (if apiProvider config = Some ''anthropic'' then new_AnthropicSimpleHandler config
      else if apiProvider config = Some ''openai-native'' then new_OpenAISimpleHandler config
      else if apiProvider config = Some ''siliconflow'' then new_SiliconFlowSimpleHandler config
      else if apiProvider config = Some ''ollama'' then new_OllamaSimpleHandler config
      else MockSimpleHandler config)"

section \<open>The persistent store\<close>

text \<open>
  Every file of the store is written as \<^verbatim>\<open>JSON.stringify(v, null, 2)\<close> and read with
  \<^verbatim>\<open>JSON.parse\<close>. A file is held as what \<^verbatim>\<open>JSON.parse\<close> makes of its text: the value
  \<open>v\<close> for a file written from \<open>v\<close>, or a SyntaxError for a truncated or foreign text.
  \<open>write_error\<close> gives, for a path where \<^verbatim>\<open>fs.writeFile\<close> rejects, the error it rejects with.
\<close>

datatype file_content = Unparsable | Stored json

record filesystem =
  files :: "string \<Rightarrow> file_content option"
  write_error :: "string \<Rightarrow> string option"

text \<open>\<^verbatim>\<open>fs.readFile\<close>: \<open>None\<close> when it rejects, as it does for a missing file.\<close>

definition readFile :: "filesystem \<Rightarrow> string \<Rightarrow> file_content option" where
  "readFile fs p = files fs p"

definition writeFile :: "filesystem \<Rightarrow> string \<Rightarrow> file_content \<Rightarrow> string + filesystem" where
  "writeFile fs p c =
     (case write_error fs p of
        Some e \<Rightarrow> Inl e
      | None \<Rightarrow> Inr (fs\<lparr>files := (files fs)(p \<mapsto> c)\<rparr>))"

text \<open>\<^verbatim>\<open>path.join(a, b)\<close> for segments that need no normalisation.\<close>

definition path_join :: "string \<Rightarrow> string \<Rightarrow> string" where
  "path_join a b = a @ ''/'' @ b"

text \<open>
  A \<^verbatim>\<open>Map\<close> keeps its keys in insertion order: \<^verbatim>\<open>set\<close> is \<open>AList.update\<close>, \<^verbatim>\<open>delete\<close> is
  \<open>AList.delete\<close>, \<^verbatim>\<open>get\<close> is \<open>map_of\<close>, and \<^verbatim>\<open>Object.fromEntries\<close> makes the object of its
  entries.
\<close>

type_synonym js_map = "(string \<times> json) list"

record CliContext =
  workspaceFolder :: string
  globalStoragePath :: string
  workspaceStoragePath :: string
  secretStorage :: js_map
  globalState :: js_map
  workspaceState :: js_map

definition globalStatePath :: "CliContext \<Rightarrow> string" where
  "globalStatePath c = path_join (globalStoragePath c) ''state.json''"

definition workspaceStatePath :: "CliContext \<Rightarrow> string" where
  "workspaceStatePath c = path_join (workspaceStoragePath c) ''state.json''"

definition secretsPath :: "CliContext \<Rightarrow> string" where
  "secretsPath c = path_join (globalStoragePath c) ''secrets.json''"

definition configPath :: "CliContext \<Rightarrow> string" where
  "configPath c = path_join (globalStoragePath c) ''api-config.json''"

definition historyPath :: "CliContext \<Rightarrow> string" where
  "historyPath c = path_join (globalStoragePath c) ''task-history.json''"

text \<open>
  \<^verbatim>\<open>Object.entries(v)\<close>: a TypeError (\<open>None\<close>) on \<^verbatim>\<open>null\<close>, the properties of an object, the
  indexed elements of an array or string, nothing for a number or boolean.
\<close>

fun Object_entries :: "json \<Rightarrow> js_map option" where
  "Object_entries JNull = None"
| "Object_entries (JObject kvs) = Some kvs"
| "Object_entries (JArray xs) = Some (zip (map show_nat [0..<length xs]) xs)"
| "Object_entries (JString s) =
     Some (zip (map show_nat [0..<length s]) (map (\<lambda>c. JString [c]) s))"
| "Object_entries (JNumber n) = Some []"
| "Object_entries (JBool b) = Some []"

text \<open>\<^verbatim>\<open>new Map(entries)\<close>.\<close>

definition new_Map :: "js_map \<Rightarrow> js_map" where
  "new_Map entries = foldl (\<lambda>m (k, v). AList.update k v m) [] entries"

text \<open>
  One \<^verbatim>\<open>try { read; parse; new Map(Object.entries(...)) } catch { }\<close> of \<^verbatim>\<open>loadState\<close>:
  on any failure the map stays as it was.
\<close>

definition load_map :: "filesystem \<Rightarrow> string \<Rightarrow> js_map \<Rightarrow> js_map" where
  "load_map fs p current =
     (case readFile fs p of
        None \<Rightarrow> current
      | Some Unparsable \<Rightarrow> current
      | Some (Stored v) \<Rightarrow>
          (case Object_entries v of None \<Rightarrow> current | Some entries \<Rightarrow> new_Map entries))"

definition loadState :: "CliContext \<Rightarrow> filesystem \<Rightarrow> CliContext" where
  "loadState c fs =
     c\<lparr>globalState := load_map fs (globalStatePath c) (globalState c),
       workspaceState := load_map fs (workspaceStatePath c) (workspaceState c),
       secretStorage := load_map fs (secretsPath c) (secretStorage c)\<rparr>"

text \<open>
  The constructor, for the home directory \<^verbatim>\<open>os.homedir()\<close>: the maps start empty and
  \<^verbatim>\<open>loadState\<close> runs to its end. Creating the directories only bears on whether later
  writes succeed, which \<open>write_error\<close> covers.
\<close>

definition new_CliContext :: "string \<Rightarrow> string \<Rightarrow> filesystem \<Rightarrow> CliContext" where
  "new_CliContext homedir folder fs =
     loadState
       \<lparr>workspaceFolder = folder,
        globalStoragePath = path_join (path_join homedir ''.cline'') ''global'',
        workspaceStoragePath = path_join folder ''.cline'',
        secretStorage = [], globalState = [], workspaceState = []\<rparr> fs"

text \<open>
  \<^verbatim>\<open>saveState\<close>: three writes in one \<^verbatim>\<open>try\<close>; the first that rejects ends the block with
  a warning.
\<close>

definition saveState :: "CliContext \<Rightarrow> filesystem \<Rightarrow> filesystem" where
  "saveState c fs =
     (case writeFile fs (globalStatePath c) (Stored (JObject (globalState c))) of
        Inl e \<Rightarrow> fs
      | Inr fs1 \<Rightarrow>
          (case writeFile fs1 (workspaceStatePath c) (Stored (JObject (workspaceState c))) of
             Inl e \<Rightarrow> fs1
           | Inr fs2 \<Rightarrow>
               (case writeFile fs2 (secretsPath c) (Stored (JObject (secretStorage c))) of
                  Inl e \<Rightarrow> fs2
                | Inr fs3 \<Rightarrow> fs3)))"

definition workspaceState_get :: "CliContext \<Rightarrow> string \<Rightarrow> json option" where
  "workspaceState_get c key = map_of (workspaceState c) key"

definition workspaceState_update ::
  "CliContext \<Rightarrow> string \<Rightarrow> json \<Rightarrow> filesystem \<Rightarrow> CliContext \<times> filesystem" where
  "workspaceState_update c key v fs =
     (let c' = c\<lparr>workspaceState := AList.update key v (workspaceState c)\<rparr>
      in (c', saveState c' fs))"

definition globalState_get :: "CliContext \<Rightarrow> string \<Rightarrow> json option" where
  "globalState_get c key = map_of (globalState c) key"

definition globalState_update ::
  "CliContext \<Rightarrow> string \<Rightarrow> json \<Rightarrow> filesystem \<Rightarrow> CliContext \<times> filesystem" where
  "globalState_update c key v fs =
     (let c' = c\<lparr>globalState := AList.update key v (globalState c)\<rparr>
      in (c', saveState c' fs))"

definition secrets_get :: "CliContext \<Rightarrow> string \<Rightarrow> json option" where
  "secrets_get c key = map_of (secretStorage c) key"

definition secrets_store ::
  "CliContext \<Rightarrow> string \<Rightarrow> string \<Rightarrow> filesystem \<Rightarrow> CliContext \<times> filesystem" where
  "secrets_store c key v fs =
     (let c' = c\<lparr>secretStorage := AList.update key (JString v) (secretStorage c)\<rparr>
      in (c', saveState c' fs))"

definition secrets_delete ::
  "CliContext \<Rightarrow> string \<Rightarrow> filesystem \<Rightarrow> CliContext \<times> filesystem" where
  "secrets_delete c key fs =
     (let c' = c\<lparr>secretStorage := AList.delete key (secretStorage c)\<rparr>
      in (c', saveState c' fs))"

text \<open>\<^verbatim>\<open>getApiConfiguration\<close> returns the parsed file, or \<^verbatim>\<open>null\<close> from its \<^verbatim>\<open>catch\<close>.\<close>

definition getApiConfiguration :: "CliContext \<Rightarrow> filesystem \<Rightarrow> json" where
  "getApiConfiguration c fs =
     (case readFile fs (configPath c) of
        Some (Stored v) \<Rightarrow> v
      | Some Unparsable \<Rightarrow> JNull
      | None \<Rightarrow> JNull)"

text \<open>\<^verbatim>\<open>getTaskHistory\<close> returns the parsed file, or \<^verbatim>\<open>[]\<close> from its \<^verbatim>\<open>catch\<close>.\<close>

definition getTaskHistory :: "CliContext \<Rightarrow> filesystem \<Rightarrow> json" where
  "getTaskHistory c fs =
     (case readFile fs (historyPath c) of
        Some (Stored v) \<Rightarrow> v
      | Some Unparsable \<Rightarrow> JArray []
      | None \<Rightarrow> JArray [])"

definition saveTaskHistory :: "CliContext \<Rightarrow> json \<Rightarrow> filesystem \<Rightarrow> filesystem" where
  "saveTaskHistory c history fs =
     (case writeFile fs (historyPath c) (Stored history) of
        Inl e \<Rightarrow> fs
      | Inr fs' \<Rightarrow> fs')"

section \<open>The controller\<close>

record CliController =
  "context" :: CliContext
  apiConfiguration :: ApiConfiguration
  apiHandler :: SimpleApiHandler

definition new_CliController :: "CliContext \<Rightarrow> ApiConfiguration \<Rightarrow> CliController" where
  "new_CliController c config =
     \<lparr>context = c, apiConfiguration = config, apiHandler = buildSimpleApiHandler config\<rparr>"

text \<open>
  The item that \<^verbatim>\<open>saveToHistory\<close> builds; \<open>now1\<close> and \<open>now2\<close> are the results of its two
  calls of \<^verbatim>\<open>Date.now()\<close>, in milliseconds.
\<close>

definition historyItem :: "string \<Rightarrow> nat \<Rightarrow> nat \<Rightarrow> json" where
  "historyItem task now1 now2 =
     JObject [(''id'', JString (show_nat now1)),
              (''ts'', JNumber (real now2)),
              (''task'', JString task),
              (''tokensIn'', JNumber 0),
              (''tokensOut'', JNumber 0),
              (''cacheWrites'', JNumber 0),
              (''cacheReads'', JNumber 0),
              (''totalCost'', JNumber 0),
              (''isFavorited'', JBool False)]"

text \<open>
  \<^verbatim>\<open>history.unshift(historyItem)\<close> is a TypeError unless the parsed history is an array;
  the \<^verbatim>\<open>catch\<close> of \<^verbatim>\<open>saveToHistory\<close> turns it into a warning and nothing is written.
\<close>

definition saveToHistory ::
  "CliController \<Rightarrow> string \<Rightarrow> string \<Rightarrow> nat \<Rightarrow> nat \<Rightarrow> filesystem \<Rightarrow> filesystem" where
  "saveToHistory ctl task response now1 now2 fs =
     (case getTaskHistory (context ctl) fs of
        JArray history \<Rightarrow>
          saveTaskHistory (context ctl)
            (JArray (take 100 (historyItem task now1 now2 # history))) fs
      | _ \<Rightarrow> fs)"

definition systemPrompt_of :: "CliController \<Rightarrow> string" where
  "systemPrompt_of ctl =
     ''You are Cline, an AI coding assistant. You help users with programming tasks, file operations, and code analysis.\<newline>\<newline>''
     @ ''Current working directory: '' @ workspaceFolder (context ctl) @ ''\<newline>\<newline>''
     @ ''Please help the user with their request. Be concise and helpful. If you need to perform file operations or run commands, explain what you would do but note that this is a simplified CLI version.''"

text \<open>
  \<^verbatim>\<open>for await (const chunk of stream)\<close>: \<^verbatim>\<open>process.stdout.write\<close> throws a TypeError for a
  text that is not a string; a string is appended to \<^verbatim>\<open>response\<close>, as is the text of an
  error chunk.
\<close>

fun consume :: "chunk list \<Rightarrow> string \<Rightarrow> string + string" where
  "consume [] response = Inr response"
| "consume (Text (JString s) # cs) response = consume cs (response @ s)"
| "consume (Text v # cs) response =
     Inl ''TypeError [ERR_INVALID_ARG_TYPE]: The \"chunk\" argument must be of type string or an instance of Buffer, TypedArray, or DataView.''"
| "consume (Error e # cs) response = consume cs (response @ e)"

text \<open>
  \<^verbatim>\<open>executeTask\<close>: the result is the rethrown error, or the response of the completed turn,
  and the file system it leaves.
\<close>

definition executeTask ::
  "'d runtime \<Rightarrow> CliController \<Rightarrow> string \<Rightarrow> nat \<Rightarrow> nat \<Rightarrow> filesystem \<Rightarrow>
   (string + string) \<times> filesystem" where
  "executeTask R ctl description now1 now2 fs =
     (case createMessage R (apiHandler ctl) (systemPrompt_of ctl) description of
        (chunks, thrown) \<Rightarrow>
          (case consume chunks [] of
             Inl e \<Rightarrow> (Inl e, fs)
           | Inr response \<Rightarrow>
               (case thrown of
                  Some e \<Rightarrow> (Inl e, fs)
                | None \<Rightarrow> (Inr response, saveToHistory ctl description response now1 now2 fs))))"

section \<open>Notions used in the statements\<close>

text \<open>
  The lines that a buffer holding \<open>t\<close> hands to the \<^verbatim>\<open>for\<close> loop, and the fragment that
  stays in the buffer.
\<close>

definition complete_lines :: "string \<Rightarrow> string list" where
  "complete_lines t = pop_rest (js_split newline t)"

definition pending :: "string \<Rightarrow> string" where
  "pending t = pop_or_empty (js_split newline t)"

text \<open>The text that successive reads decode to, and the decoder state after them.\<close>

fun decode_all :: "('d \<Rightarrow> string \<Rightarrow> string \<times> 'd) \<Rightarrow> 'd \<Rightarrow> string list \<Rightarrow> string \<times> 'd" where
  "decode_all dec d [] = ([], d)"
| "decode_all dec d (v # vs) =
     (case dec d v of (t, d') \<Rightarrow> (case decode_all dec d' vs of (ts, d'') \<Rightarrow> (t @ ts, d'')))"

definition stream_text :: "'d runtime \<Rightarrow> string list \<Rightarrow> string" where
  "stream_text R vs = fst (decode_all (decode R) (new_TextDecoder R) vs)"

text \<open>
  What the platform promises of a streaming decoder: decoding a byte sequence in two
  pieces gives the text of decoding it in one.
\<close>

definition stream_decoder :: "('d \<Rightarrow> string \<Rightarrow> string \<times> 'd) \<Rightarrow> bool" where
  "stream_decoder dec \<longleftrightarrow>
     (\<forall>d. dec d [] = ([], d)) \<and>
     (\<forall>d a b. dec d (a @ b) =
        (case dec d a of (x, d1) \<Rightarrow> (case dec d1 b of (y, d2) \<Rightarrow> (x @ y, d2))))"

text \<open>The chunks that a list of lines yields.\<close>

definition emitted :: "(string \<Rightarrow> chunk list \<times> bool) \<Rightarrow> string list \<Rightarrow> chunk list" where
  "emitted f ls = fst (for_lines f ls)"

text \<open>\<^verbatim>\<open>fetch\<close> resolving to the response \<open>r\<close>, and a runtime in which it does, with a body
  that delivers \<open>reads\<close>.\<close>

definition respond :: "response \<Rightarrow> request \<Rightarrow> fetch_result" where
  "respond r req = Response r"

definition answering :: "'d runtime \<Rightarrow> response \<Rightarrow> read_result list \<Rightarrow> 'd runtime" where
  "answering R r reads = R\<lparr>fetch := respond (r\<lparr>body := Some reads\<rparr>)\<rparr>"

fun uses_network :: "SimpleApiHandler \<Rightarrow> bool" where
  "uses_network (MockSimpleHandler config) = False"
| "uses_network h = True"

text \<open>
  The end-of-stream frame of a provider: the line \<^verbatim>\<open>data: [DONE]\<close> for the three handlers
  that read server-sent events; for Ollama a line that is not blank and parses to a value
  whose \<^verbatim>\<open>done\<close> is \<^verbatim>\<open>true\<close>.
\<close>

fun end_sentinel :: "SimpleApiHandler \<Rightarrow> (string \<Rightarrow> json option) \<Rightarrow> string \<Rightarrow> bool" where
  "end_sentinel (AnthropicSimpleHandler k m) parse l = (l = ''data: [DONE]'')"
| "end_sentinel (OpenAISimpleHandler k m) parse l = (l = ''data: [DONE]'')"
| "end_sentinel (SiliconFlowSimpleHandler k m) parse l = (l = ''data: [DONE]'')"
| "end_sentinel (OllamaSimpleHandler b m) parse l =
     (trim l \<noteq> [] \<and>
      (case parse l of None \<Rightarrow> False | Some v \<Rightarrow> member v ''done'' = Some (JBool True)))"
| "end_sentinel (MockSimpleHandler config) parse l = False"

fun is_Ollama :: "SimpleApiHandler \<Rightarrow> bool" where
  "is_Ollama (OllamaSimpleHandler b m) = True"
| "is_Ollama h = False"

text \<open>The value at the delta path of each handler.\<close>

fun delta_field :: "SimpleApiHandler \<Rightarrow> json \<Rightarrow> json option" where
  "delta_field (AnthropicSimpleHandler k m) v = Anthropic_delta v"
| "delta_field (OpenAISimpleHandler k m) v = OpenAI_delta v"
| "delta_field (SiliconFlowSimpleHandler k m) v = OpenAI_delta v"
| "delta_field (OllamaSimpleHandler b m) v = Ollama_delta v"
| "delta_field (MockSimpleHandler config) v = None"

text \<open>
  The JSON text of a frame: what follows \<^verbatim>\<open>data: \<close> on a line of server-sent events, a whole
  line that is not blank for Ollama.
\<close>

fun frame_data :: "SimpleApiHandler \<Rightarrow> string \<Rightarrow> string option" where
  "frame_data (OllamaSimpleHandler b m) l = (if trim l \<noteq> [] then Some l else None)"
| "frame_data (MockSimpleHandler config) l = None"
| "frame_data h l = (if startsWith l ''data: '' then Some (drop 6 l) else None)"


text \<open>An Ollama frame whose \<^verbatim>\<open>done\<close> is truthy.\<close>

definition done_frame :: "SimpleApiHandler \<Rightarrow> (string \<Rightarrow> json option) \<Rightarrow> string \<Rightarrow> bool" where
  "done_frame h parse l =
     (is_Ollama h \<and> (case parse l of None \<Rightarrow> False | Some v \<Rightarrow> truthy (member v ''done'')))"

fun is_Anthropic :: "SimpleApiHandler \<Rightarrow> bool" where
  "is_Anthropic (AnthropicSimpleHandler k m) = True"
| "is_Anthropic h = False"

text \<open>
  A frame that carries the text delta \<open>s\<close>: its JSON parses to a value that holds the
  string \<open>s\<close> at the delta path of the handler, on a \<^verbatim>\<open>content_block_delta\<close> event for
  Anthropic.
\<close>

definition carries_delta ::
  "SimpleApiHandler \<Rightarrow> (string \<Rightarrow> json option) \<Rightarrow> string \<Rightarrow> string \<Rightarrow> bool" where
  "carries_delta h parse l s =
     (case frame_data h l of
        None \<Rightarrow> False
      | Some d \<Rightarrow>
          (is_Ollama h \<or> d \<noteq> ''[DONE]'') \<and>
          (case parse d of
             None \<Rightarrow> False
           | Some v \<Rightarrow>
               delta_field h v = Some (JString s) \<and>
               (is_Anthropic h \<longrightarrow> member v ''type'' = Some (JString ''content_block_delta''))))"

text \<open>
  The chunks that \<^verbatim>\<open>createMessage\<close> yields from the reads \<open>rest\<close> that follow the reads \<open>vs\<close>,
  when the lines completed by \<open>vs\<close> have not made it return: those of the lines that \<open>rest\<close>
  completes and, when one of these reads rejects, the error chunk.
\<close>

definition later_reads ::
  "'d runtime \<Rightarrow> (string \<Rightarrow> chunk list \<times> bool) \<Rightarrow> string list \<Rightarrow> read_result list \<Rightarrow> chunk list" where
  "later_reads R f vs rest =
     fst (catch_yield
            (read_loop (decode R) f (snd (decode_all (decode R) (new_TextDecoder R) vs))
               (pending (stream_text R vs)) rest))"

text \<open>A file that is missing or whose text does not parse, and a path that can be written.\<close>

definition unreadable :: "filesystem \<Rightarrow> string \<Rightarrow> bool" where
  "unreadable fs p = (readFile fs p = None \<or> readFile fs p = Some Unparsable)"

definition writable :: "filesystem \<Rightarrow> string \<Rightarrow> bool" where
  "writable fs p = (write_error fs p = None)"

text \<open>The four mutations of the state store.\<close>

datatype mutation =
    GlobalUpdate string json
  | WorkspaceUpdate string json
  | SecretStore string string
  | SecretDelete string

fun mutate :: "CliContext \<Rightarrow> mutation \<Rightarrow> filesystem \<Rightarrow> CliContext \<times> filesystem" where
  "mutate c (GlobalUpdate key v) fs = globalState_update c key v fs"
| "mutate c (WorkspaceUpdate key v) fs = workspaceState_update c key v fs"
| "mutate c (SecretStore key v) fs = secrets_store c key v fs"
| "mutate c (SecretDelete key) fs = secrets_delete c key fs"

text \<open>
  Successive calls of \<^verbatim>\<open>saveToHistory\<close>, each with its task, its response and its two
  clock readings, and the item of a call.
\<close>

fun save_all ::
  "CliController \<Rightarrow> (string \<times> string \<times> nat \<times> nat) list \<Rightarrow> filesystem \<Rightarrow> filesystem" where
  "save_all ctl [] fs = fs"
| "save_all ctl ((task, response, now1, now2) # calls) fs =
     save_all ctl calls (saveToHistory ctl task response now1 now2 fs)"

fun item_of :: "string \<times> string \<times> nat \<times> nat \<Rightarrow> json" where
  "item_of (task, response, now1, now2) = historyItem task now1 now2"

fun is_Error :: "chunk \<Rightarrow> bool" where
  "is_Error (Error e) = True"
| "is_Error (Text v) = False"

text \<open>The concatenation of the string payloads of the text chunks.\<close>

fun concat_texts :: "chunk list \<Rightarrow> string" where
  "concat_texts [] = []"
| "concat_texts (Text (JString s) # cs) = s @ concat_texts cs"
| "concat_texts (c # cs) = concat_texts cs"

text \<open>The provider identifiers that the dispatcher knows.\<close>

definition known_providers :: "string list" where
  "known_providers = [''anthropic'', ''openai-native'', ''siliconflow'', ''ollama'']"

section \<open>Sample inputs\<close>

text \<open>A decoder for ASCII bytes, which are their own text.\<close>

definition ascii_decode :: "unit \<Rightarrow> string \<Rightarrow> string \<times> unit" where
  "ascii_decode d bytes = (bytes, d)"

text \<open>A success and a failure, and \<^verbatim>\<open>fetch\<close> rejecting with \<open>e\<close>.\<close>

definition ok_response :: response where
  "ok_response = \<lparr>status = 200, statusText = ''OK'', body = None\<rparr>"

definition not_found_response :: response where
  "not_found_response = \<lparr>status = 404, statusText = ''Not Found'', body = None\<rparr>"

definition reject :: "string \<Rightarrow> request \<Rightarrow> fetch_result" where
  "reject e req = FetchRejects e"

text \<open>What \<^verbatim>\<open>JSON.parse\<close> returns for the frames of the examples.\<close>

definition sample_parses :: "(string \<times> json) list" where
  \<open>sample_parses =
     [(''{"type":"content_block_delta","delta":{"text":"Hi"}}'',
       JObject [(''type'', JString ''content_block_delta''),
                (''delta'', JObject [(''text'', JString ''Hi'')])]),
      (''{"type":"content_block_delta","delta":{"text":""}}'',
       JObject [(''type'', JString ''content_block_delta''),
                (''delta'', JObject [(''text'', JString [])])]),
      (''{"type":"content_block_delta","delta":{"text":"!"}}'',
       JObject [(''type'', JString ''content_block_delta''),
                (''delta'', JObject [(''text'', JString ''!'')])]),
      (''{"type":"ping"}'', JObject [(''type'', JString ''ping'')]),
      (''{"choices":[{"delta":{"content":"Hi"}}]}'',
       JObject [(''choices'', JArray [JObject [(''delta'',
                  JObject [(''content'', JString ''Hi'')])]])]),
      (''{"message":{"content":"Hel"}}'',
       JObject [(''message'', JObject [(''content'', JString ''Hel'')])]),
      (''{"message":{"content":"lo"},"done":true}'',
       JObject [(''message'', JObject [(''content'', JString ''lo'')]),
                (''done'', JBool True)]),
      (''{"message":{"content":" a  b "}}'',
       JObject [(''message'', JObject [(''content'', JString '' a  b '')])])]\<close>

definition sample_runtime :: "unit runtime" where
  "sample_runtime =
     \<lparr>JSON_parse = map_of sample_parses, decode = ascii_decode, new_TextDecoder = (),
      fetch = respond ok_response\<rparr>"

definition sample_Anthropic :: SimpleApiHandler where
  "sample_Anthropic = AnthropicSimpleHandler ''key'' ''claude-3-5-sonnet-20241022''"

definition sample_Ollama :: SimpleApiHandler where
  "sample_Ollama = OllamaSimpleHandler ''http://localhost:11434'' ''llama3.2''"

text \<open>A configuration for Anthropic and one for a provider that the dispatcher does not know.\<close>

definition anthropic_config :: ApiConfiguration where
  "anthropic_config =
     \<lparr>apiProvider = Some ''anthropic'', apiKey = Some ''key'', apiModelId = None,
      openAiNativeApiKey = None, ollamaBaseUrl = None\<rparr>"

definition gemini_config :: ApiConfiguration where
  "gemini_config =
     \<lparr>apiProvider = Some ''gemini'', apiKey = Some ''key'', apiModelId = None,
      openAiNativeApiKey = None, ollamaBaseUrl = None\<rparr>"

text \<open>
  Sample disks: an empty one, and one whose global state file is truncated while the
  workspace state file is intact.
\<close>

definition empty_disk :: filesystem where
  "empty_disk = \<lparr>files = Map.empty, write_error = Map.empty\<rparr>"

definition damaged_disk :: filesystem where
  "damaged_disk =
     \<lparr>files = [''/home/u/.cline/global/state.json'' \<mapsto> Unparsable,
               ''/work/.cline/state.json'' \<mapsto> Stored (JObject [(''theme'', JString ''dark'')]),
               ''/home/u/.cline/global/task-history.json'' \<mapsto> Unparsable],
      write_error = Map.empty\<rparr>"

text \<open>A hundred and one calls, numbered by their clock readings.\<close>

definition hundred_and_one_calls :: "(string \<times> string \<times> nat \<times> nat) list" where
  "hundred_and_one_calls = map (\<lambda>i. (''task'', ''response'', i, i)) [0..<101]"

section \<open>Trimming\<close>

lemma strip_start_unchanged:
  "\<forall>w \<in> set ws. w = [] \<or> \<not> startsWith s w \<Longrightarrow> strip_start ws s = s"
proof -
  assume a: "\<forall>w \<in> set ws. w = [] \<or> \<not> startsWith s w"
  then have "List.find (\<lambda>w. w \<noteq> [] \<and> startsWith s w) ws = None"
    by (auto simp: find_None_iff)
  then show ?thesis
    by (subst strip_start.simps) simp
qed

section \<open>Splitting and the buffer\<close>

lemma js_split_nonempty: "js_split sep s \<noteq> []"
  by (induction s) (auto split: list.splits)

lemma js_split_no_sep: "sep \<notin> set b \<Longrightarrow> js_split sep b = [b]"
  by (induction b) auto

lemma js_split_append:
  "js_split sep (a @ b) =
     butlast (js_split sep a) @ (last (js_split sep a) @ hd (js_split sep b)) # tl (js_split sep b)"
proof (induction a)
  case Nil
  then show ?case using js_split_nonempty [of sep b] by simp
next
  case (Cons c a)
  show ?case
  proof (cases "js_split sep a")
    case Nil
    then show ?thesis using js_split_nonempty [of sep a] by simp
  next
    case (Cons s ss)
    then show ?thesis using Cons.IH
      by (cases ss) (auto simp: js_split_nonempty)
  qed
qed

lemma pending_no_newline: "newline \<notin> set (pending t)"
  unfolding pending_def pop_or_empty_def
  by (induction t) (auto simp: js_split_nonempty split: list.splits)

lemma js_split_pending_append:
  "js_split newline (pending a @ b) =
     (pending a @ hd (js_split newline b)) # tl (js_split newline b)"
  using js_split_append [of newline "pending a" b]
  by (simp add: js_split_no_sep pending_no_newline)

lemma js_split_append_pending:
  "js_split newline (a @ b) = complete_lines a @ js_split newline (pending a @ b)"
  using js_split_nonempty [of newline a]
  by (simp add: js_split_pending_append js_split_append [of newline a b])
     (simp add: complete_lines_def pending_def pop_rest_def pop_or_empty_def)

lemma complete_lines_append:
  "complete_lines (a @ b) = complete_lines a @ complete_lines (pending a @ b)"
  using js_split_nonempty [of newline "pending a @ b"]
  by (simp add: complete_lines_def [of "a @ b"] js_split_append_pending [of a b] pop_rest_def
        butlast_append)
     (simp add: complete_lines_def pop_rest_def)

lemma pending_append: "pending (a @ b) = pending (pending a @ b)"
  using js_split_nonempty [of newline "pending a @ b"]
  by (simp add: pending_def [of "a @ b"] js_split_append_pending [of a b] pop_or_empty_def)
     (simp add: pending_def pop_or_empty_def)

lemma complete_lines_no_newline: "newline \<notin> set b \<Longrightarrow> complete_lines b = []"
  by (simp add: complete_lines_def pop_rest_def js_split_no_sep)

lemma pending_no_newline_id: "newline \<notin> set b \<Longrightarrow> pending b = b"
  by (simp add: pending_def pop_or_empty_def js_split_no_sep)

section \<open>The loops\<close>

lemma for_lines_append:
  "for_lines f (xs @ ys) =
     (case for_lines f xs of
        (cs, True) \<Rightarrow> (cs, True)
      | (cs, False) \<Rightarrow> (case for_lines f ys of (ds, r) \<Rightarrow> (cs @ ds, r)))"
  by (induction xs) (auto split: prod.splits bool.splits)

lemma read_loop_values:
  "newline \<notin> set b \<Longrightarrow>
   read_loop dec f d b (map Value vs @ rest) =
     (case decode_all dec d vs of (t, d') \<Rightarrow>
        (case for_lines f (complete_lines (b @ t)) of
           (cs, True) \<Rightarrow> (cs, None)
         | (cs, False) \<Rightarrow>
             (case read_loop dec f d' (pending (b @ t)) rest of (ds, e) \<Rightarrow> (cs @ ds, e))))"
proof (induction vs arbitrary: d b)
  case Nil
  then show ?case
    by (simp add: complete_lines_no_newline pending_no_newline_id)
next
  case (Cons v vs)
  obtain t d1 where dv: "dec d v = (t, d1)" by (cases "dec d v")
  obtain ts d2 where dvs: "decode_all dec d1 vs = (ts, d2)" by (cases "decode_all dec d1 vs")
  have IH: "read_loop dec f d1 (pending (b @ t)) (map Value vs @ rest) =
     (case for_lines f (complete_lines (pending (b @ t) @ ts)) of
           (cs, True) \<Rightarrow> (cs, None)
         | (cs, False) \<Rightarrow>
             (case read_loop dec f d2 (pending (pending (b @ t) @ ts)) rest of (ds, e) \<Rightarrow> (cs @ ds, e)))"
    using Cons.IH [of "pending (b @ t)" d1] by (simp add: pending_no_newline dvs)
  have c: "complete_lines (b @ t @ ts) = complete_lines (b @ t) @ complete_lines (pending (b @ t) @ ts)"
    using complete_lines_append [of "b @ t" ts] by simp
  have p: "pending (b @ t @ ts) = pending (pending (b @ t) @ ts)"
    using pending_append [of "b @ t" ts] by simp
  have step: "read_loop dec f d b (map Value (v # vs) @ rest) =
     (case for_lines f (complete_lines (b @ t)) of
        (cs, True) \<Rightarrow> (cs, None)
      | (cs, False) \<Rightarrow>
          (case read_loop dec f d1 (pending (b @ t)) (map Value vs @ rest) of
             (ds, e) \<Rightarrow> (cs @ ds, e)))"
    unfolding complete_lines_def pending_def by (simp add: dv Let_def)
  obtain cs1 r1 where f1: "for_lines f (complete_lines (b @ t)) = (cs1, r1)"
    by (cases "for_lines f (complete_lines (b @ t))")
  obtain cs2 r2 where f2: "for_lines f (complete_lines (pending (b @ t) @ ts)) = (cs2, r2)"
    by (cases "for_lines f (complete_lines (pending (b @ t) @ ts))")
  obtain ds e where f3: "read_loop dec f d2 (pending (pending (b @ t) @ ts)) rest = (ds, e)"
    by (cases "read_loop dec f d2 (pending (pending (b @ t) @ ts)) rest")
  show ?case
  proof (cases r1)
    case True
    then show ?thesis
      unfolding step by (simp add: dv dvs c for_lines_append f1)
  next
    case False
    then show ?thesis
      unfolding step IH by (cases r2) (simp_all add: dv dvs c p for_lines_append f1 f2 f3)
  qed
qed

lemma decode_all_concat:
  "stream_decoder dec \<Longrightarrow> decode_all dec d vs = dec d (concat vs)"
proof (induction vs arbitrary: d)
  case Nil
  then show ?case by (simp add: stream_decoder_def)
next
  case (Cons v vs)
  from Cons.prems have "dec d (v @ concat vs) =
    (case dec d v of (x, d1) \<Rightarrow> (case dec d1 (concat vs) of (y, d2) \<Rightarrow> (x @ y, d2)))"
    unfolding stream_decoder_def by blast
  then show ?case using Cons.IH [OF Cons.prems] by (simp split: prod.splits)
qed

lemma createMessage_network:
  "uses_network h \<Longrightarrow>
   createMessage R h sp um =
     catch_yield (try_block R (request_of h sp um) (on_line h (JSON_parse R)))"
  by (cases h) simp_all

lemma try_block_values:
  assumes "fetch R req = Response r" and "ok r" and "body r = Some (map Value vs @ rest)"
  shows "try_block R req f =
     (case for_lines f (complete_lines (stream_text R vs)) of
        (cs, True) \<Rightarrow> (cs, None)
      | (cs, False) \<Rightarrow>
          (case read_loop (decode R) f (snd (decode_all (decode R) (new_TextDecoder R) vs))
                  (pending (stream_text R vs)) rest of
             (ds, e) \<Rightarrow> (cs @ ds, e)))"
  using assms read_loop_values [of "[]" "decode R" f "new_TextDecoder R" vs rest]
  by (simp add: try_block_def stream_text_def split: prod.splits)

lemma answering_simps:
  "fetch (answering R r reads) req = Response (r\<lparr>body := Some reads\<rparr>)"
  "JSON_parse (answering R r reads) = JSON_parse R"
  "decode (answering R r reads) = decode R"
  "new_TextDecoder (answering R r reads) = new_TextDecoder R"
  "stream_text (answering R r reads) vs = stream_text R vs"
  by (simp_all add: answering_def respond_def stream_text_def)

lemma createMessage_complete_stream:
  assumes "uses_network h" and "ok r"
  shows "createMessage (answering R r (map Value vs)) h sp um =
     (emitted (on_line h (JSON_parse R)) (complete_lines (stream_text R vs)), None)"
proof -
  have "ok (r\<lparr>body := Some (map Value vs)\<rparr>)" using assms(2) by (simp add: ok_def)
  then have "try_block (answering R r (map Value vs)) (request_of h sp um) (on_line h (JSON_parse R)) =
     (case for_lines (on_line h (JSON_parse R)) (complete_lines (stream_text R vs)) of
        (cs, True) \<Rightarrow> (cs, None)
      | (cs, False) \<Rightarrow> (cs, None))"
    using try_block_values [of "answering R r (map Value vs)" "request_of h sp um"
        "r\<lparr>body := Some (map Value vs)\<rparr>" vs "[]" "on_line h (JSON_parse R)"]
    by (simp add: answering_simps split: prod.splits bool.splits)
  then show ?thesis
    using assms(1)
    by (simp add: createMessage_network answering_simps catch_yield_def emitted_def
        split: prod.splits bool.splits)
qed

section \<open>Split invariance of the decoders\<close>

lemma stream_decoder_ascii: "stream_decoder ascii_decode"
  by (simp add: stream_decoder_def ascii_decode_def)

lemma ok_ok_response: "ok ok_response"
  by (simp add: ok_def ok_response_def)

text \<open>
  Claim C1. Let the response be a success whose body delivers the byte sequences \<open>vs\<close> and
  then ends, and let the decoder be a streaming decoder. Whatever the handler, the chunks of
  \<^verbatim>\<open>createMessage\<close> are those it yields when the same bytes arrive in a single read, and so
  are the concatenated payloads of its text chunks. For the four network handlers the chunks
  are those of the lines that a newline ends in the whole text, in order: the fragment after
  the last newline of a read stays in the buffer, is parsed only once a later read completes
  it, and is never parsed when the stream ends without one.
\<close>

theorem createMessage_split_invariant:
  assumes "stream_decoder (decode R)" and "ok r"
  shows "createMessage (answering R r (map Value vs)) h sp um
           = createMessage (answering R r [Value (concat vs)]) h sp um
       \<and> concat_texts (fst (createMessage (answering R r (map Value vs)) h sp um))
           = concat_texts (fst (createMessage (answering R r [Value (concat vs)]) h sp um))
       \<and> (uses_network h \<longrightarrow>
            createMessage (answering R r (map Value vs)) h sp um
              = (emitted (on_line h (JSON_parse R)) (complete_lines (stream_text R vs)), None))"
proof -
  have one: "stream_text R [concat vs] = stream_text R vs"
    using decode_all_concat [OF assms(1), of "new_TextDecoder R" vs]
    by (simp add: stream_text_def split: prod.splits)
  have eq: "createMessage (answering R r (map Value vs)) h sp um
           = createMessage (answering R r [Value (concat vs)]) h sp um"
  proof (cases "uses_network h")
    case True
    show ?thesis
      using createMessage_complete_stream [OF True assms(2), of R vs sp um]
        createMessage_complete_stream [OF True assms(2), of R "[concat vs]" sp um]
      by (simp add: one)
  next
    case False
    then show ?thesis by (cases h) simp_all
  qed
  show ?thesis
    using eq createMessage_complete_stream [OF _ assms(2), of h R vs sp um] by simp
qed


theorem createMessage_split_invariant_witness:
  \<open>stream_decoder (decode sample_runtime) \<and> ok ok_response \<and> uses_network sample_Anthropic
   \<and> createMessage (answering sample_runtime ok_response
         (map Value [''data: {"type":"content_blo'',
                     ''ck_delta","delta":{"text":"Hi"}}\<newline>\<newline>data: {"type":"content_block_delta","delta":{"te'',
                     ''xt":"!"}}\<newline>da'']))
         sample_Anthropic ''system'' ''user''
     = createMessage (answering sample_runtime ok_response
         [Value (concat [''data: {"type":"content_blo'',
                     ''ck_delta","delta":{"text":"Hi"}}\<newline>\<newline>data: {"type":"content_block_delta","delta":{"te'',
                     ''xt":"!"}}\<newline>da''])])
         sample_Anthropic ''system'' ''user''
   \<and> createMessage (answering sample_runtime ok_response
         (map Value [''data: {"type":"content_blo'',
                     ''ck_delta","delta":{"text":"Hi"}}\<newline>\<newline>data: {"type":"content_block_delta","delta":{"te'',
                     ''xt":"!"}}\<newline>da'']))
         sample_Anthropic ''system'' ''user''
     = ([Text (JString ''Hi''), Text (JString ''!'')], None)\<close>
proof -
  let ?vs = \<open>[''data: {"type":"content_blo'',
                     ''ck_delta","delta":{"text":"Hi"}}\<newline>\<newline>data: {"type":"content_block_delta","delta":{"te'',
                     ''xt":"!"}}\<newline>da'']\<close>
  have d: "stream_decoder (decode sample_runtime)"
    by (simp add: sample_runtime_def stream_decoder_ascii)
  have n: "uses_network sample_Anthropic"
    by (simp add: sample_Anthropic_def)
  have e: "emitted (on_line sample_Anthropic (JSON_parse sample_runtime))
       (complete_lines (stream_text sample_runtime ?vs)) = [Text (JString ''Hi''), Text (JString ''!'')]"
    by (simp add: emitted_def complete_lines_def stream_text_def sample_runtime_def
        ascii_decode_def sample_Anthropic_def Anthropic_line_def startsWith_def pop_rest_def
        sample_parses_def Anthropic_delta_def yield_if_def newline_def)
  note T = createMessage_split_invariant [OF d ok_ok_response, of ?vs sample_Anthropic "''system''" "''user''"]
  from T have A: "createMessage (answering sample_runtime ok_response (map Value ?vs))
         sample_Anthropic ''system'' ''user''
     = createMessage (answering sample_runtime ok_response [Value (concat ?vs)])
         sample_Anthropic ''system'' ''user''"
    by (rule conjunct1)
  from T n have C: "createMessage (answering sample_runtime ok_response (map Value ?vs))
         sample_Anthropic ''system'' ''user''
     = (emitted (on_line sample_Anthropic (JSON_parse sample_runtime))
       (complete_lines (stream_text sample_runtime ?vs)), None)"
    by blast
  show ?thesis
    using d n ok_ok_response A C [unfolded e] by blast
qed

section \<open>Failures become one error chunk\<close>

lemma yield_if_no_error: "c \<in> set (yield_if v) \<Longrightarrow> \<not> is_Error c"
  by (auto simp: yield_if_def split: option.splits if_splits)

lemma on_line_no_error: "c \<in> set (fst (on_line h p l)) \<Longrightarrow> \<not> is_Error c"
  by (cases h)
     (auto simp: Anthropic_line_def OpenAI_line_def Ollama_line_def Let_def
        dest: yield_if_no_error split: if_splits option.splits)

lemma for_lines_no_error:
  "c \<in> set (fst (for_lines (on_line h p) ls)) \<Longrightarrow> \<not> is_Error c"
proof (induction ls)
  case Nil
  then show ?case by simp
next
  case (Cons l ls)
  obtain cs r where o: "on_line h p l = (cs, r)" by (cases "on_line h p l")
  obtain ds r' where f: "for_lines (on_line h p) ls = (ds, r')"
    by (cases "for_lines (on_line h p) ls")
  from Cons.prems o f have "c \<in> set cs \<or> c \<in> set ds"
    by (cases r) auto
  then show ?case
    using on_line_no_error [of c h p l] Cons.IH o f by auto
qed

lemma emitted_no_error: "\<not> list_ex is_Error (emitted (on_line h p) ls)"
  using for_lines_no_error [of _ h p ls] by (auto simp: emitted_def list_ex_iff)

lemma read_loop_no_error:
  "c \<in> set (fst (read_loop dec (on_line h p) d b reads)) \<Longrightarrow> \<not> is_Error c"
proof (induction reads arbitrary: d b)
  case Nil
  then show ?case by simp
next
  case (Cons x reads)
  show ?case
  proof (cases x)
    case (ReadRejects e)
    with Cons.prems show ?thesis by simp
  next
    case (Value v)
    obtain t d' where dv: "dec d v = (t, d')" by (cases "dec d v")
    obtain cs r where f: "for_lines (on_line h p) (pop_rest (js_split newline (b @ t))) = (cs, r)"
      by (cases "for_lines (on_line h p) (pop_rest (js_split newline (b @ t)))")
    obtain ds e where g:
      "read_loop dec (on_line h p) d' (pop_or_empty (js_split newline (b @ t))) reads = (ds, e)"
      by (cases "read_loop dec (on_line h p) d' (pop_or_empty (js_split newline (b @ t))) reads")
    from Cons.prems Value dv f g have "c \<in> set cs \<or> c \<in> set ds"
      by (cases r) (auto simp: Let_def)
    then show ?thesis
      using for_lines_no_error [of c h p "pop_rest (js_split newline (b @ t))"] f
        Cons.IH [of d' "pop_or_empty (js_split newline (b @ t))"] g by auto
  qed
qed

lemma try_block_no_error:
  "c \<in> set (fst (try_block R req (on_line h p))) \<Longrightarrow> \<not> is_Error c"
  by (auto simp: try_block_def dest: read_loop_no_error split: fetch_result.splits if_splits option.splits)

lemma createMessage_errors:
  "length (filter is_Error (fst (createMessage R h sp um))) \<le> 1"
proof (cases "uses_network h")
  case True
  obtain cs e where t: "try_block R (request_of h sp um) (on_line h (JSON_parse R)) = (cs, e)"
    by (cases "try_block R (request_of h sp um) (on_line h (JSON_parse R))")
  have "filter is_Error cs = []"
    using try_block_no_error [of _ R "request_of h sp um" h "JSON_parse R"] t
    by (auto simp: filter_empty_conv)
  then show ?thesis
    using True t by (cases e) (simp_all add: createMessage_network catch_yield_def)
next
  case False
  then show ?thesis by (cases h) simp_all
qed

lemma createMessage_never_throws: "uses_network h \<Longrightarrow> snd (createMessage R h sp um) = None"
  by (simp add: createMessage_network catch_yield_def split: prod.splits option.splits)

lemma createMessage_not_ok:
  "uses_network h \<Longrightarrow> fetch R (request_of h sp um) = Response r \<Longrightarrow> \<not> ok r \<Longrightarrow>
   createMessage R h sp um =
     ([Error (''Error: Error: API request failed: '' @ show_nat (status r) @ '' '' @ statusText r)],
      None)"
  by (simp add: createMessage_network catch_yield_def try_block_def)

lemma createMessage_fetch_rejects:
  "uses_network h \<Longrightarrow> fetch R (request_of h sp um) = FetchRejects e \<Longrightarrow>
   createMessage R h sp um = ([Error (''Error: '' @ e)], None)"
  by (simp add: createMessage_network catch_yield_def try_block_def)

lemma createMessage_read_rejects:
  assumes "uses_network h" and "fetch R (request_of h sp um) = Response r" and "ok r"
    and "body r = Some (map Value vs @ ReadRejects e # rest)"
    and "\<not> snd (for_lines (on_line h (JSON_parse R)) (complete_lines (stream_text R vs)))"
  shows "createMessage R h sp um =
     (emitted (on_line h (JSON_parse R)) (complete_lines (stream_text R vs))
        @ [Error (''Error: '' @ e)], None)"
proof -
  obtain cs where f: "for_lines (on_line h (JSON_parse R)) (complete_lines (stream_text R vs)) = (cs, False)"
    using assms(5) by (cases "for_lines (on_line h (JSON_parse R)) (complete_lines (stream_text R vs))") auto
  have "try_block R (request_of h sp um) (on_line h (JSON_parse R)) = (cs, Some e)"
    using try_block_values [OF assms(2,3,4), of "on_line h (JSON_parse R)"] f by simp
  then show ?thesis
    using assms(1) f by (simp add: createMessage_network catch_yield_def emitted_def)
qed

text \<open>
  Claim C2. For each of the four network handlers, \<^verbatim>\<open>createMessage\<close> never throws to its
  consumer and yields at most one error chunk. When the response status is not a success
  it yields exactly one error chunk, which names the status, and no text chunk. When
  \<^verbatim>\<open>fetch\<close> rejects it yields exactly one error chunk with the rejection. When a read of
  the body rejects before the generator has returned, it yields the text chunks of the
  lines read so far and then exactly one error chunk with the rejection, as its last chunk.
\<close>

theorem createMessage_failure_one_error:
  assumes "uses_network h"
  shows "snd (createMessage R h sp um) = None
     \<and> length (filter is_Error (fst (createMessage R h sp um))) \<le> 1
     \<and> (\<forall>r. fetch R (request_of h sp um) = Response r \<and> \<not> ok r \<longrightarrow>
          createMessage R h sp um =
            ([Error (''Error: Error: API request failed: '' @ show_nat (status r) @ '' ''
                     @ statusText r)], None))
     \<and> (\<forall>e. fetch R (request_of h sp um) = FetchRejects e \<longrightarrow>
          createMessage R h sp um = ([Error (''Error: '' @ e)], None))
     \<and> (\<forall>r vs e rest.
          fetch R (request_of h sp um) = Response r \<and> ok r
          \<and> body r = Some (map Value vs @ ReadRejects e # rest)
          \<and> \<not> snd (for_lines (on_line h (JSON_parse R)) (complete_lines (stream_text R vs)))
          \<longrightarrow>
          createMessage R h sp um =
            (emitted (on_line h (JSON_parse R)) (complete_lines (stream_text R vs))
               @ [Error (''Error: '' @ e)], None)
          \<and> \<not> list_ex is_Error
                (emitted (on_line h (JSON_parse R)) (complete_lines (stream_text R vs))))"
  using assms createMessage_never_throws [OF assms] createMessage_errors [of R h sp um]
    createMessage_not_ok [OF assms, of R sp um] createMessage_fetch_rejects [OF assms, of R sp um]
    createMessage_read_rejects [OF assms, of R sp um]
    emitted_no_error [of h "JSON_parse R"]
  by blast


theorem createMessage_failure_one_error_witness:
  \<open>uses_network sample_Anthropic
   \<and> fetch (answering sample_runtime not_found_response [])
         (request_of sample_Anthropic ''system'' ''user'')
       = Response (not_found_response\<lparr>body := Some []\<rparr>)
   \<and> \<not> ok (not_found_response\<lparr>body := Some []\<rparr>)
   \<and> createMessage (answering sample_runtime not_found_response []) sample_Anthropic
         ''system'' ''user''
       = ([Error ''Error: Error: API request failed: 404 Not Found''], None)
   \<and> fetch (sample_runtime\<lparr>fetch := reject ''TypeError: fetch failed''\<rparr>)
         (request_of sample_Anthropic ''system'' ''user'')
       = FetchRejects ''TypeError: fetch failed''
   \<and> createMessage (sample_runtime\<lparr>fetch := reject ''TypeError: fetch failed''\<rparr>)
         sample_Anthropic ''system'' ''user''
       = ([Error ''Error: TypeError: fetch failed''], None)
   \<and> ok ok_response
   \<and> createMessage
         (answering sample_runtime ok_response
            [Value ''data: {"type":"content_block_delta","delta":{"text":"Hi"}}\<newline>'',
             ReadRejects ''TypeError: terminated''])
         sample_Anthropic ''system'' ''user''
       = ([Text (JString ''Hi''), Error ''Error: TypeError: terminated''], None)\<close>
proof -
  let ?h = sample_Anthropic
  let ?req = "request_of ?h ''system'' ''user''"
  let ?R1 = "answering sample_runtime not_found_response []"
  let ?R2 = "sample_runtime\<lparr>fetch := reject ''TypeError: fetch failed''\<rparr>"
  let ?v = \<open>''data: {"type":"content_block_delta","delta":{"text":"Hi"}}\<newline>''\<close>
  let ?R3 = "answering sample_runtime ok_response [Value ?v, ReadRejects ''TypeError: terminated'']"
  have n: "uses_network ?h" by (simp add: sample_Anthropic_def)
  have f1: "fetch ?R1 ?req = Response (not_found_response\<lparr>body := Some []\<rparr>)"
    by (simp add: answering_simps)
  have k1: "\<not> ok (not_found_response\<lparr>body := Some []\<rparr>)"
    by (simp add: ok_def not_found_response_def)
  have s1: "''Error: Error: API request failed: ''
              @ show_nat (status (not_found_response\<lparr>body := Some []\<rparr>)) @ '' ''
              @ statusText (not_found_response\<lparr>body := Some []\<rparr>)
            = ''Error: Error: API request failed: 404 Not Found''"
    by (simp add: not_found_response_def)
  have c1: "createMessage ?R1 ?h ''system'' ''user''
       = ([Error ''Error: Error: API request failed: 404 Not Found''], None)"
    using createMessage_failure_one_error [OF n, of ?R1 "''system''" "''user''"] f1 k1
    unfolding s1 [symmetric] by blast
  have f2: "fetch ?R2 ?req = FetchRejects ''TypeError: fetch failed''"
    by (simp add: reject_def)
  have c2: "createMessage ?R2 ?h ''system'' ''user'' = ([Error ''Error: TypeError: fetch failed''], None)"
    using createMessage_failure_one_error [OF n, of ?R2 "''system''" "''user''"] f2
    by simp
  have f3: "fetch ?R3 ?req
      = Response (ok_response\<lparr>body := Some [Value ?v, ReadRejects ''TypeError: terminated'']\<rparr>)"
    by (simp add: answering_simps)
  have k3: "ok (ok_response\<lparr>body := Some [Value ?v, ReadRejects ''TypeError: terminated'']\<rparr>)"
    by (simp add: ok_def ok_response_def)
  have b3: "body (ok_response\<lparr>body := Some [Value ?v, ReadRejects ''TypeError: terminated'']\<rparr>)
      = Some (map Value [?v] @ ReadRejects ''TypeError: terminated'' # [])"
    by simp
  have e3: "for_lines (on_line ?h (JSON_parse ?R3)) (complete_lines (stream_text ?R3 [?v]))
      = ([Text (JString ''Hi'')], False)"
    by (simp add: answering_simps complete_lines_def stream_text_def sample_runtime_def
        ascii_decode_def sample_Anthropic_def Anthropic_line_def startsWith_def pop_rest_def
        sample_parses_def Anthropic_delta_def yield_if_def newline_def)
  have q3: "\<not> snd (for_lines (on_line ?h (JSON_parse ?R3)) (complete_lines (stream_text ?R3 [?v])))"
    unfolding e3 by simp
  have "createMessage ?R3 ?h ''system'' ''user''
       = (emitted (on_line ?h (JSON_parse ?R3)) (complete_lines (stream_text ?R3 [?v]))
            @ [Error (''Error: '' @ ''TypeError: terminated'')], None)"
    using createMessage_failure_one_error [OF n, of ?R3 "''system''" "''user''"] f3 k3 b3 q3
    by blast
  then have c3: "createMessage ?R3 ?h ''system'' ''user''
       = ([Text (JString ''Hi''), Error ''Error: TypeError: terminated''], None)"
    unfolding emitted_def e3 by simp
  show ?thesis
    using n f1 k1 c1 f2 c2 ok_ok_response c3 by blast
qed

section \<open>The end-of-stream sentinel\<close>

lemma for_lines_return:
  assumes "snd (f l)"
  shows "for_lines f (pre @ l # post) = for_lines f (pre @ [l])"
    and "snd (for_lines f (pre @ [l]))"
proof -
  obtain cs where l: "f l = (cs, True)" using assms by (cases "f l") auto
  show "for_lines f (pre @ l # post) = for_lines f (pre @ [l])"
    by (simp add: for_lines_append l split: prod.splits bool.splits)
  show "snd (for_lines f (pre @ [l]))"
    by (simp add: for_lines_append l split: prod.splits bool.splits)
qed

lemma end_sentinel_on_line:
  assumes "end_sentinel h parse l"
  shows "snd (on_line h parse l)"
    and "\<not> is_Ollama h \<Longrightarrow> on_line h parse l = ([], True)"
    and "is_Ollama h \<Longrightarrow> parse l = Some v \<Longrightarrow> on_line h parse l = (yield_if (Ollama_delta v), True)"
  using assms
  by (cases h; auto simp: Anthropic_line_def OpenAI_line_def Ollama_line_def startsWith_def
        split: option.splits)+

text \<open>
  Claim C3. Let the response be a success and let the lines that the reads \<open>vs\<close> complete be
  \<open>pre\<close>, then a frame \<open>l\<close> carrying the end-of-stream sentinel of the handler, then \<open>post\<close>.
  Then \<^verbatim>\<open>createMessage\<close> returns at \<open>l\<close>: its chunks are those of \<open>pre\<close> and \<open>l\<close>, whatever
  the lines \<open>post\<close>, the fragment left in the buffer and the further reads \<open>rest\<close> are (also
  a read that would reject). For the handlers of server-sent events the sentinel line
  yields no chunk; the Ollama handler first yields the content that the sentinel frame
  itself carries, if any, and then returns.
\<close>

theorem createMessage_ends_at_sentinel:
  assumes "end_sentinel h (JSON_parse R) l"
    and "fetch R (request_of h sp um) = Response r" and "ok r"
    and "body r = Some (map Value vs @ rest)"
    and "complete_lines (stream_text R vs) = pre @ l # post"
  shows "createMessage R h sp um = (emitted (on_line h (JSON_parse R)) (pre @ [l]), None)
     \<and> (\<not> is_Ollama h \<longrightarrow>
          on_line h (JSON_parse R) l = ([], True)
          \<and> createMessage R h sp um = (emitted (on_line h (JSON_parse R)) pre, None))
     \<and> (\<forall>v. is_Ollama h \<and> JSON_parse R l = Some v \<longrightarrow>
          on_line h (JSON_parse R) l = (yield_if (Ollama_delta v), True))"
proof -
  let ?f = "on_line h (JSON_parse R)"
  have n: "uses_network h" using assms(1) by (cases h) simp_all
  have s: "snd (?f l)" using end_sentinel_on_line(1) [OF assms(1)] .
  obtain cs where f: "for_lines ?f (pre @ [l]) = (cs, True)"
    using for_lines_return(2) [where f = ?f and l = l and pre = pre] s by (cases "for_lines ?f (pre @ [l])") auto
  have "try_block R (request_of h sp um) ?f = (cs, None)"
    using try_block_values [OF assms(2,3,4), of ?f] for_lines_return(1) [where f = ?f and l = l and pre = pre and post = post] s f
    by (simp add: assms(5))
  then have main: "createMessage R h sp um = (emitted ?f (pre @ [l]), None)"
    using n f by (simp add: createMessage_network catch_yield_def emitted_def)
  have sse: "emitted ?f (pre @ [l]) = emitted ?f pre" if "\<not> is_Ollama h"
    using end_sentinel_on_line(2) [OF assms(1) that]
    by (simp add: emitted_def for_lines_append split: prod.splits bool.splits)
  show ?thesis
    using main sse end_sentinel_on_line(2,3) [OF assms(1)] by auto
qed


theorem createMessage_ends_at_sentinel_witness:
  \<open>end_sentinel sample_Anthropic (JSON_parse sample_runtime) ''data: [DONE]''
   \<and> \<not> is_Ollama sample_Anthropic
   \<and> ok ok_response
   \<and> complete_lines (stream_text sample_runtime
         [''data: {"type":"content_block_delta","delta":{"text":"Hi"}}\<newline>\<newline>data: [DONE]\<newline>\<newline>data: {"type":"content_block_delta","delta":{"text":"!"}}\<newline>da''])
       = [''data: {"type":"content_block_delta","delta":{"text":"Hi"}}'', []]
         @ ''data: [DONE]''
         # [[], ''data: {"type":"content_block_delta","delta":{"text":"!"}}'']
   \<and> createMessage
         (answering sample_runtime ok_response
            [Value ''data: {"type":"content_block_delta","delta":{"text":"Hi"}}\<newline>\<newline>data: [DONE]\<newline>\<newline>data: {"type":"content_block_delta","delta":{"text":"!"}}\<newline>da'',
             ReadRejects ''TypeError: terminated''])
         sample_Anthropic ''system'' ''user''
       = ([Text (JString ''Hi'')], None)
   \<and> end_sentinel sample_Ollama (JSON_parse sample_runtime)
         ''{"message":{"content":"lo"},"done":true}''
   \<and> is_Ollama sample_Ollama
   \<and> JSON_parse sample_runtime ''{"message":{"content":"lo"},"done":true}''
       = Some (JObject [(''message'', JObject [(''content'', JString ''lo'')]),
                        (''done'', JBool True)])
   \<and> on_line sample_Ollama (JSON_parse sample_runtime)
         ''{"message":{"content":"lo"},"done":true}''
       = ([Text (JString ''lo'')], True)
   \<and> createMessage
         (answering sample_runtime ok_response
            [Value ''{"message":{"content":"Hel"}}\<newline>{"message":{"content":"lo"},"done":true}\<newline>{"message":{"content":"Hel"}}\<newline>''])
         sample_Ollama ''system'' ''user''
       = ([Text (JString ''Hel''), Text (JString ''lo'')], None)\<close>
proof -
  let ?hi = \<open>''data: {"type":"content_block_delta","delta":{"text":"Hi"}}''\<close>
  let ?bang = \<open>''data: {"type":"content_block_delta","delta":{"text":"!"}}''\<close>
  let ?v = \<open>''data: {"type":"content_block_delta","delta":{"text":"Hi"}}\<newline>\<newline>data: [DONE]\<newline>\<newline>data: {"type":"content_block_delta","delta":{"text":"!"}}\<newline>da''\<close>
  let ?A = "answering sample_runtime ok_response [Value ?v, ReadRejects ''TypeError: terminated'']"
  let ?hel = \<open>''{"message":{"content":"Hel"}}''\<close>
  let ?lo = \<open>''{"message":{"content":"lo"},"done":true}''\<close>
  let ?w = \<open>''{"message":{"content":"Hel"}}\<newline>{"message":{"content":"lo"},"done":true}\<newline>{"message":{"content":"Hel"}}\<newline>''\<close>
  let ?O = "answering sample_runtime ok_response [Value ?w]"
  have a1: "end_sentinel sample_Anthropic (JSON_parse ?A) ''data: [DONE]''"
    by (simp add: sample_Anthropic_def)
  have a1': "end_sentinel sample_Anthropic (JSON_parse sample_runtime) ''data: [DONE]''"
    by (simp add: sample_Anthropic_def)
  have a2: "\<not> is_Ollama sample_Anthropic"
    by (simp add: sample_Anthropic_def)
  have a3: "fetch ?A (request_of sample_Anthropic ''system'' ''user'')
      = Response (ok_response\<lparr>body := Some [Value ?v, ReadRejects ''TypeError: terminated'']\<rparr>)"
    by (simp add: answering_simps)
  have a4: "ok (ok_response\<lparr>body := Some [Value ?v, ReadRejects ''TypeError: terminated'']\<rparr>)"
    by (simp add: ok_def ok_response_def)
  have a5: "body (ok_response\<lparr>body := Some [Value ?v, ReadRejects ''TypeError: terminated'']\<rparr>)
      = Some (map Value [?v] @ [ReadRejects ''TypeError: terminated''])"
    by simp
  have a6: "complete_lines (stream_text sample_runtime [?v]) = [?hi, []] @ ''data: [DONE]'' # [[], ?bang]"
    by (simp add: complete_lines_def stream_text_def sample_runtime_def ascii_decode_def
        pop_rest_def newline_def)
  have a6': "complete_lines (stream_text ?A [?v]) = [?hi, []] @ ''data: [DONE]'' # [[], ?bang]"
    using a6 by (simp only: answering_simps)
  have a7: "emitted (on_line sample_Anthropic (JSON_parse ?A)) [?hi, []] = [Text (JString ''Hi'')]"
    by (simp add: answering_simps emitted_def sample_runtime_def sample_Anthropic_def
        Anthropic_line_def startsWith_def sample_parses_def Anthropic_delta_def yield_if_def)
  have A: "createMessage ?A sample_Anthropic ''system'' ''user'' = ([Text (JString ''Hi'')], None)"
    using createMessage_ends_at_sentinel [OF a1 a3 a4 a5 a6'] a2 unfolding a7 by blast
  have o1: "end_sentinel sample_Ollama (JSON_parse sample_runtime) ?lo"
    by (simp add: sample_Ollama_def sample_runtime_def sample_parses_def trim_def
        js_whitespace_def strip_start_unchanged startsWith_def)
  have o1': "end_sentinel sample_Ollama (JSON_parse ?O) ?lo"
    using o1 by (simp only: answering_simps)
  have o2: "is_Ollama sample_Ollama"
    by (simp add: sample_Ollama_def)
  have o3: "fetch ?O (request_of sample_Ollama ''system'' ''user'')
      = Response (ok_response\<lparr>body := Some [Value ?w]\<rparr>)"
    by (simp add: answering_simps)
  have o4: "ok (ok_response\<lparr>body := Some [Value ?w]\<rparr>)"
    by (simp add: ok_def ok_response_def)
  have o5: "body (ok_response\<lparr>body := Some [Value ?w]\<rparr>) = Some (map Value [?w] @ [])"
    by simp
  have o6: "complete_lines (stream_text ?O [?w]) = [?hel] @ ?lo # [?hel]"
    by (simp add: answering_simps complete_lines_def stream_text_def sample_runtime_def
        ascii_decode_def pop_rest_def newline_def)
  have o7: "JSON_parse sample_runtime ?lo
      = Some (JObject [(''message'', JObject [(''content'', JString ''lo'')]),
                       (''done'', JBool True)])"
    by (simp add: sample_runtime_def sample_parses_def)
  have o7': "JSON_parse ?O ?lo
      = Some (JObject [(''message'', JObject [(''content'', JString ''lo'')]),
                       (''done'', JBool True)])"
    using o7 by (simp only: answering_simps)
  have o8: "yield_if (Ollama_delta (JObject [(''message'', JObject [(''content'', JString ''lo'')]),
                       (''done'', JBool True)])) = [Text (JString ''lo'')]"
    by (simp add: yield_if_def Ollama_delta_def)
  have o9: "emitted (on_line sample_Ollama (JSON_parse ?O)) ([?hel] @ [?lo])
      = [Text (JString ''Hel''), Text (JString ''lo'')]"
    by (simp add: answering_simps emitted_def sample_runtime_def sample_Ollama_def
        Ollama_line_def sample_parses_def Ollama_delta_def yield_if_def trim_def
        js_whitespace_def strip_start_unchanged startsWith_def)
  note T = createMessage_ends_at_sentinel [OF o1' o3 o4 o5 o6]
  have O: "createMessage ?O sample_Ollama ''system'' ''user''
      = ([Text (JString ''Hel''), Text (JString ''lo'')], None)"
    using T unfolding o9 by blast
  have L: "on_line sample_Ollama (JSON_parse sample_runtime) ?lo = ([Text (JString ''lo'')], True)"
    using T o2 o7' unfolding o8 [symmetric] by (simp only: answering_simps)
  show ?thesis
    using a1' a2 ok_ok_response a6 A o1 o2 o7 L O by blast
qed

section \<open>Frames without a text delta\<close>






section \<open>Frames with a text delta\<close>

lemma carries_delta_on_line:
  assumes "carries_delta h parse l s"
  shows "on_line h parse l = (if s = [] then [] else [Text (JString s)], done_frame h parse l)"
  using assms
  by (cases h; auto simp: carries_delta_def done_frame_def Anthropic_line_def OpenAI_line_def
        Ollama_line_def yield_if_def Anthropic_delta_def OpenAI_delta_def Ollama_delta_def
        split: option.splits if_splits)

lemma for_lines_at:
  assumes "\<not> snd (for_lines f pre)" and "f l = (cs, stop)"
  shows "for_lines f (pre @ l # post)
       = (fst (for_lines f pre) @ cs @ (if stop then [] else fst (for_lines f post)),
          stop \<or> snd (for_lines f post))"
  using assms
  by (cases stop) (auto simp: for_lines_append split: prod.splits bool.splits)

lemma catch_yield_append: "fst (catch_yield (cs @ ds, e)) = cs @ fst (catch_yield (ds, e))"
  by (cases e) (simp_all add: catch_yield_def)

lemma later_reads_Nil: "later_reads R f vs [] = []"
  by (simp add: later_reads_def catch_yield_def)

text \<open>
  Claim C6, as the code has it. A frame whose delta is the empty string yields no chunk:
  each handler yields only when the value at its delta path is truthy.
\<close>

theorem createMessage_empty_delta_counterexample:
  \<open>carries_delta sample_Anthropic (JSON_parse sample_runtime)
      ''data: {"type":"content_block_delta","delta":{"text":""}}'' []
   \<and> createMessage
         (answering sample_runtime ok_response
            [Value ''data: {"type":"content_block_delta","delta":{"text":""}}\<newline>''])
         sample_Anthropic ''system'' ''user''
       = ([], None)\<close>
  by (simp add: carries_delta_def sample_Anthropic_def sample_runtime_def sample_parses_def
      startsWith_def Anthropic_delta_def answering_def respond_def catch_yield_def
      try_block_def ok_def ok_response_def ascii_decode_def newline_def pop_rest_def
      pop_or_empty_def Anthropic_line_def yield_if_def)

text \<open>
  Claim C6, amended. Let the response be a success whose body delivers the reads \<open>vs\<close>, none
  of which rejects, and then the reads \<open>rest\<close>. Let the lines that a newline ends in the text
  of \<open>vs\<close> be \<open>pre\<close>, then a frame \<open>l\<close> that carries the string \<open>s\<close> as its text delta, then
  \<open>post\<close>, and let no line of \<open>pre\<close> make the generator return. For every handler:
  when \<open>s\<close> is not the empty string, \<open>l\<close> yields exactly one text chunk, whose payload is \<open>s\<close>
  unchanged; when \<open>s\<close> is the empty string, \<open>l\<close> yields no chunk. \<^verbatim>\<open>createMessage\<close> does not
  throw and yields, in this order, the chunks of \<open>pre\<close>, the chunk of \<open>l\<close>, and then, unless
  \<open>l\<close> is an Ollama frame whose \<^verbatim>\<open>done\<close> ends the stream, the chunks of \<open>post\<close> and, unless a
  line of \<open>post\<close> makes it return, the chunks of the reads \<open>rest\<close> (none when \<open>rest\<close> is empty).
\<close>

theorem createMessage_yields_delta:
  assumes "carries_delta h (JSON_parse R) l s"
    and "fetch R (request_of h sp um) = Response r" and "ok r"
    and "body r = Some (map Value vs @ rest)"
    and "complete_lines (stream_text R vs) = pre @ l # post"
    and "\<not> snd (for_lines (on_line h (JSON_parse R)) pre)"
  shows "(s \<noteq> [] \<longrightarrow> fst (on_line h (JSON_parse R) l) = [Text (JString s)])
     \<and> (s = [] \<longrightarrow> fst (on_line h (JSON_parse R) l) = [])
     \<and> snd (on_line h (JSON_parse R) l) = done_frame h (JSON_parse R) l
     \<and> createMessage R h sp um =
         (emitted (on_line h (JSON_parse R)) pre
            @ (if s = [] then [] else [Text (JString s)])
            @ (if done_frame h (JSON_parse R) l then []
               else emitted (on_line h (JSON_parse R)) post
                    @ (if snd (for_lines (on_line h (JSON_parse R)) post) then []
                       else later_reads R (on_line h (JSON_parse R)) vs rest)), None)
     \<and> later_reads R (on_line h (JSON_parse R)) vs [] = []"
proof -
  let ?f = "on_line h (JSON_parse R)"
  let ?own = "if s = [] then [] else [Text (JString s)]"
  let ?stop = "done_frame h (JSON_parse R) l"
  let ?loop = "read_loop (decode R) ?f (snd (decode_all (decode R) (new_TextDecoder R) vs))
                 (pending (stream_text R vs)) rest"
  have n: "uses_network h" using assms(1) by (cases h) (simp_all add: carries_delta_def)
  have o: "?f l = (?own, ?stop)"
    using carries_delta_on_line [OF assms(1)] .
  have fl: "for_lines ?f (pre @ l # post)
      = (emitted ?f pre @ ?own @ (if ?stop then [] else emitted ?f post),
         ?stop \<or> snd (for_lines ?f post))"
    unfolding emitted_def using for_lines_at [of ?f pre l ?own ?stop post, OF assms(6) o] .
  have t: "try_block R (request_of h sp um) ?f =
     (case for_lines ?f (pre @ l # post) of
        (cs, True) \<Rightarrow> (cs, None)
      | (cs, False) \<Rightarrow> (case ?loop of (ds, e) \<Rightarrow> (cs @ ds, e)))"
    using try_block_values [OF assms(2,3,4), of ?f] by (simp only: assms(5))
  have s: "snd (createMessage R h sp um) = None"
    using n by (simp add: createMessage_network catch_yield_def split: prod.splits option.splits)
  obtain ds e where l: "?loop = (ds, e)" by (cases ?loop)
  have lr: "later_reads R ?f vs rest = fst (catch_yield (ds, e))"
    by (simp add: later_reads_def l)
  have c: "fst (createMessage R h sp um) =
         emitted ?f pre @ ?own
            @ (if ?stop then []
               else emitted ?f post
                    @ (if snd (for_lines ?f post) then [] else later_reads R ?f vs rest))"
  proof (cases "?stop \<or> snd (for_lines ?f post)")
    case True
    then have "try_block R (request_of h sp um) ?f
        = (emitted ?f pre @ ?own @ (if ?stop then [] else emitted ?f post), None)"
      unfolding t fl by simp
    then show ?thesis
      using n True by (auto simp: createMessage_network catch_yield_def)
  next
    case False
    then have "try_block R (request_of h sp um) ?f
        = ((emitted ?f pre @ ?own @ emitted ?f post) @ ds, e)"
      unfolding t fl l by simp
    then have "fst (createMessage R h sp um)
        = (emitted ?f pre @ ?own @ emitted ?f post) @ fst (catch_yield (ds, e))"
      using n by (simp only: createMessage_network catch_yield_append)
    then show ?thesis
      using False lr by simp
  qed
  have "createMessage R h sp um = (fst (createMessage R h sp um), None)"
    using s by (cases "createMessage R h sp um") simp
  then show ?thesis
    using o c later_reads_Nil [of R ?f vs] by simp
qed


theorem createMessage_yields_delta_witness:
  \<open>carries_delta sample_Ollama (JSON_parse sample_runtime)
      ''{"message":{"content":" a  b "}}'' '' a  b ''
   \<and> '' a  b '' \<noteq> []
   \<and> ok ok_response
   \<and> complete_lines (stream_text sample_runtime
         [''{"message":{"content":"Hel"}}\<newline>{"message":{"content":" a  b "}}\<newline>''])
       = [''{"message":{"content":"Hel"}}''] @ ''{"message":{"content":" a  b "}}'' # []
   \<and> \<not> snd (for_lines (on_line sample_Ollama (JSON_parse sample_runtime))
              [''{"message":{"content":"Hel"}}''])
   \<and> fst (on_line sample_Ollama (JSON_parse sample_runtime) ''{"message":{"content":" a  b "}}'')
       = [Text (JString '' a  b '')]
   \<and> createMessage
         (answering sample_runtime ok_response
            [Value ''{"message":{"content":"Hel"}}\<newline>{"message":{"content":" a  b "}}\<newline>'',
             Value ''{"message":{"content":"lo"},"done":true}\<newline>'',
             ReadRejects ''TypeError: terminated''])
         sample_Ollama ''system'' ''user''
       = ([Text (JString ''Hel''), Text (JString '' a  b ''), Text (JString ''lo'')], None)
   \<and> carries_delta sample_Anthropic (JSON_parse sample_runtime)
         ''data: {"type":"content_block_delta","delta":{"text":""}}'' []
   \<and> complete_lines (stream_text sample_runtime
         [''data: {"type":"content_block_delta","delta":{"text":"Hi"}}\<newline>data: {"type":"content_block_delta","delta":{"text":""}}\<newline>data: {"type":"content_block_delta","delta":{"text":"!"}}\<newline>''])
       = [''data: {"type":"content_block_delta","delta":{"text":"Hi"}}'']
         @ ''data: {"type":"content_block_delta","delta":{"text":""}}''
         # [''data: {"type":"content_block_delta","delta":{"text":"!"}}'']
   \<and> \<not> snd (for_lines (on_line sample_Anthropic (JSON_parse sample_runtime))
              [''data: {"type":"content_block_delta","delta":{"text":"Hi"}}''])
   \<and> fst (on_line sample_Anthropic (JSON_parse sample_runtime)
              ''data: {"type":"content_block_delta","delta":{"text":""}}'') = []
   \<and> createMessage
         (answering sample_runtime ok_response
            [Value ''data: {"type":"content_block_delta","delta":{"text":"Hi"}}\<newline>data: {"type":"content_block_delta","delta":{"text":""}}\<newline>data: {"type":"content_block_delta","delta":{"text":"!"}}\<newline>''])
         sample_Anthropic ''system'' ''user''
       = ([Text (JString ''Hi''), Text (JString ''!'')], None)\<close>
proof -
  let ?hel = \<open>''{"message":{"content":"Hel"}}''\<close>
  let ?ab = \<open>''{"message":{"content":" a  b "}}''\<close>
  let ?v = \<open>''{"message":{"content":"Hel"}}\<newline>{"message":{"content":" a  b "}}\<newline>''\<close>
  let ?w = \<open>''{"message":{"content":"lo"},"done":true}\<newline>''\<close>
  let ?rest = "[Value ?w, ReadRejects ''TypeError: terminated'']"
  let ?A = "answering sample_runtime ok_response (Value ?v # ?rest)"
  let ?f = "on_line sample_Ollama (JSON_parse sample_runtime)"
  have a1: "carries_delta sample_Ollama (JSON_parse sample_runtime) ?ab '' a  b ''"
    by (simp add: carries_delta_def sample_Ollama_def sample_runtime_def sample_parses_def
        trim_def js_whitespace_def strip_start_unchanged startsWith_def Ollama_delta_def)
  have a2: "'' a  b '' \<noteq> []" by simp
  have a3: "fetch ?A (request_of sample_Ollama ''system'' ''user'')
      = Response (ok_response\<lparr>body := Some (Value ?v # ?rest)\<rparr>)"
    by (simp add: answering_simps)
  have a4: "ok (ok_response\<lparr>body := Some (Value ?v # ?rest)\<rparr>)"
    by (simp add: ok_def ok_response_def)
  have a5: "body (ok_response\<lparr>body := Some (Value ?v # ?rest)\<rparr>) = Some (map Value [?v] @ ?rest)"
    by simp
  have a6: "complete_lines (stream_text sample_runtime [?v]) = [?hel] @ ?ab # []"
    by (simp add: complete_lines_def stream_text_def sample_runtime_def ascii_decode_def
        pop_rest_def newline_def)
  have a7: "for_lines ?f [?hel] = ([Text (JString ''Hel'')], False)"
    by (simp add: sample_runtime_def sample_Ollama_def Ollama_line_def sample_parses_def
        Ollama_delta_def yield_if_def trim_def js_whitespace_def strip_start_unchanged
        startsWith_def)
  have a7': "emitted ?f [?hel] = [Text (JString ''Hel'')]"
    unfolding emitted_def a7 by simp
  have a8: "\<not> snd (for_lines ?f [?hel])"
    unfolding a7 by simp
  have a9: "emitted ?f [] = []" "\<not> snd (for_lines ?f [])"
    by (simp_all add: emitted_def)
  have a10: "\<not> done_frame sample_Ollama (JSON_parse sample_runtime) ?ab"
    by (simp add: done_frame_def sample_Ollama_def sample_runtime_def sample_parses_def)
  have a11: "later_reads ?A ?f [?v] ?rest = [Text (JString ''lo'')]"
    by (simp add: later_reads_def answering_simps stream_text_def pending_def sample_runtime_def
        ascii_decode_def pop_rest_def pop_or_empty_def newline_def catch_yield_def
        sample_Ollama_def Ollama_line_def sample_parses_def Ollama_delta_def yield_if_def
        trim_def js_whitespace_def strip_start_unchanged startsWith_def)
  have q: "JSON_parse ?A = JSON_parse sample_runtime"
    "stream_text ?A [?v] = stream_text sample_runtime [?v]"
    by (simp_all only: answering_simps)
  note T = createMessage_yields_delta [of sample_Ollama ?A ?ab "'' a  b ''" "''system''" "''user''"
      "ok_response\<lparr>body := Some (Value ?v # ?rest)\<rparr>" "[?v]" ?rest "[?hel]" "[]",
      unfolded q, OF a1 a3 a4 a5 a6 a8]
  have L: "fst (?f ?ab) = [Text (JString '' a  b '')]"
    using T a2 by blast
  have "createMessage ?A sample_Ollama ''system'' ''user''
      = (emitted ?f [?hel] @ (if '' a  b '' = [] then [] else [Text (JString '' a  b '')])
          @ (if done_frame sample_Ollama (JSON_parse sample_runtime) ?ab then []
             else emitted ?f [] @ (if snd (for_lines ?f []) then []
                                   else later_reads ?A ?f [?v] ?rest)), None)"
    using T by blast
  then have C: "createMessage ?A sample_Ollama ''system'' ''user''
      = ([Text (JString ''Hel''), Text (JString '' a  b ''), Text (JString ''lo'')], None)"
    using a10 a9(2) unfolding a7' a9(1) a11 by simp
  let ?hi = \<open>''data: {"type":"content_block_delta","delta":{"text":"Hi"}}''\<close>
  let ?em = \<open>''data: {"type":"content_block_delta","delta":{"text":""}}''\<close>
  let ?bang = \<open>''data: {"type":"content_block_delta","delta":{"text":"!"}}''\<close>
  let ?u = \<open>''data: {"type":"content_block_delta","delta":{"text":"Hi"}}\<newline>data: {"type":"content_block_delta","delta":{"text":""}}\<newline>data: {"type":"content_block_delta","delta":{"text":"!"}}\<newline>''\<close>
  let ?B = "answering sample_runtime ok_response [Value ?u]"
  let ?g = "on_line sample_Anthropic (JSON_parse sample_runtime)"
  have b1: "carries_delta sample_Anthropic (JSON_parse sample_runtime) ?em []"
    by (simp add: carries_delta_def sample_Anthropic_def sample_runtime_def sample_parses_def
        startsWith_def Anthropic_delta_def)
  have b3: "fetch ?B (request_of sample_Anthropic ''system'' ''user'')
      = Response (ok_response\<lparr>body := Some [Value ?u]\<rparr>)"
    by (simp add: answering_simps)
  have b4: "ok (ok_response\<lparr>body := Some [Value ?u]\<rparr>)"
    by (simp add: ok_def ok_response_def)
  have b5: "body (ok_response\<lparr>body := Some [Value ?u]\<rparr>) = Some (map Value [?u] @ [])"
    by simp
  have b6: "complete_lines (stream_text sample_runtime [?u]) = [?hi] @ ?em # [?bang]"
    by (simp add: complete_lines_def stream_text_def sample_runtime_def ascii_decode_def
        pop_rest_def newline_def)
  have b7: "for_lines ?g [?hi] = ([Text (JString ''Hi'')], False)"
    "for_lines ?g [?bang] = ([Text (JString ''!'')], False)"
    by (simp_all add: sample_runtime_def sample_Anthropic_def Anthropic_line_def startsWith_def
        sample_parses_def Anthropic_delta_def yield_if_def)
  have b7': "emitted ?g [?hi] = [Text (JString ''Hi'')]" "emitted ?g [?bang] = [Text (JString ''!'')]"
    unfolding emitted_def b7 by simp_all
  have b8: "\<not> snd (for_lines ?g [?hi])" "\<not> snd (for_lines ?g [?bang])"
    unfolding b7 by simp_all
  have b10: "\<not> done_frame sample_Anthropic (JSON_parse sample_runtime) ?em"
    by (simp add: done_frame_def sample_Anthropic_def)
  have p: "JSON_parse ?B = JSON_parse sample_runtime"
    "stream_text ?B [?u] = stream_text sample_runtime [?u]"
    by (simp_all only: answering_simps)
  note U = createMessage_yields_delta [of sample_Anthropic ?B ?em "[]" "''system''" "''user''"
      "ok_response\<lparr>body := Some [Value ?u]\<rparr>" "[?u]" "[]" "[?hi]" "[?bang]",
      unfolded p, OF b1 b3 b4 b5 b6 b8(1)]
  have M: "fst (?g ?em) = []"
    using U by blast
  have "createMessage ?B sample_Anthropic ''system'' ''user''
      = (emitted ?g [?hi] @ (if ([] :: string) = [] then [] else [Text (JString [])])
          @ (if done_frame sample_Anthropic (JSON_parse sample_runtime) ?em then []
             else emitted ?g [?bang] @ (if snd (for_lines ?g [?bang]) then []
                                        else later_reads ?B ?g [?u] [])), None)"
    using U by blast
  moreover have "later_reads ?B ?g [?u] [] = []"
    using U by blast
  ultimately have D: "createMessage ?B sample_Anthropic ''system'' ''user''
      = ([Text (JString ''Hi''), Text (JString ''!'')], None)"
    using b10 b8(2) unfolding b7' by simp
  show ?thesis
    using a1 a2 ok_ok_response a6 a8 L C b1 b6 b8(1) M D by blast
qed

section \<open>The mock handler for unknown providers\<close>

lemma buildSimpleApiHandler_mock:
  "(\<forall>p. apiProvider config = Some p \<longrightarrow> p \<notin> set known_providers) \<Longrightarrow>
   buildSimpleApiHandler config = MockSimpleHandler config"
  by (auto simp: buildSimpleApiHandler_def known_providers_def)

lemma mock_text_split:
  \<open>apiProvider config = Some p \<Longrightarrow>
   \<exists>rest. mock_text config um = ''This is a mock response for provider "'' @ p @ ''"'' @ rest\<close>
  by (simp add: mock_text_def)

lemma mock_text_names_provider:
  assumes "apiProvider config = Some p"
  shows \<open>prefix (''This is a mock response for provider "'' @ p @ ''"'') (mock_text config um)\<close>
    and "sublist p (mock_text config um)"
proof -
  obtain rest where r: \<open>mock_text config um
      = ''This is a mock response for provider "'' @ p @ ''"'' @ rest\<close>
    using mock_text_split [OF assms] by blast
  show \<open>prefix (''This is a mock response for provider "'' @ p @ ''"'') (mock_text config um)\<close>
    unfolding r by (rule prefixI) simp
  show "sublist p (mock_text config um)"
    unfolding r sublist_def by blast
qed

text \<open>
  Claim C9. For a configuration whose provider identifier is unset or not one of
  \<^verbatim>\<open>anthropic\<close>, \<^verbatim>\<open>openai-native\<close>, \<^verbatim>\<open>siliconflow\<close>, \<^verbatim>\<open>ollama\<close>, the dispatcher returns the mock
  handler. Its \<^verbatim>\<open>createMessage\<close> yields exactly one chunk and ends without throwing; the
  chunk is a text chunk, not an error chunk, and its message names the provider identifier
  of the configuration, in its first sentence.
\<close>

theorem buildSimpleApiHandler_unknown_provider:
  assumes "\<forall>p. apiProvider config = Some p \<longrightarrow> p \<notin> set known_providers"
  shows \<open>buildSimpleApiHandler config = MockSimpleHandler config
     \<and> createMessage R (buildSimpleApiHandler config) sp um
         = ([Text (JString (mock_text config um))], None)
     \<and> (\<forall>p. apiProvider config = Some p \<longrightarrow>
          prefix (''This is a mock response for provider "'' @ p @ ''"'') (mock_text config um)
          \<and> sublist p (mock_text config um))\<close>
  using buildSimpleApiHandler_mock [OF assms] mock_text_names_provider [of config _ um]
  by simp

theorem buildSimpleApiHandler_unknown_provider_witness:
  \<open>apiProvider gemini_config = Some ''gemini''
   \<and> ''gemini'' \<notin> set known_providers
   \<and> buildSimpleApiHandler gemini_config = MockSimpleHandler gemini_config
   \<and> createMessage sample_runtime (buildSimpleApiHandler gemini_config) ''system'' ''hello''
       = ([Text (JString (mock_text gemini_config ''hello''))], None)
   \<and> prefix ''This is a mock response for provider "gemini"'' (mock_text gemini_config ''hello'')
   \<and> sublist ''gemini'' (mock_text gemini_config ''hello'')\<close>
proof -
  have a: "\<forall>p. apiProvider gemini_config = Some p \<longrightarrow> p \<notin> set known_providers"
    by (simp add: gemini_config_def known_providers_def)
  have b: "apiProvider gemini_config = Some ''gemini''"
    by (simp add: gemini_config_def)
  have c: \<open>''This is a mock response for provider "'' @ ''gemini'' @ ''"''
      = ''This is a mock response for provider "gemini"''\<close>
    by simp
  note T = buildSimpleApiHandler_unknown_provider [OF a, of sample_runtime "''system''" "''hello''"]
  have d: "''gemini'' \<notin> set known_providers"
    using a b by blast
  show ?thesis
    using b d T unfolding c [symmetric] by blast
qed

section \<open>Reading missing or damaged files\<close>

lemma load_map_unreadable: "unreadable fs p \<Longrightarrow> load_map fs p current = current"
  by (auto simp: unreadable_def load_map_def)

lemma loadState_paths:
  "globalStoragePath (loadState c fs) = globalStoragePath c"
  "workspaceStoragePath (loadState c fs) = workspaceStoragePath c"
  "workspaceFolder (loadState c fs) = workspaceFolder c"
  by (simp_all add: loadState_def)

lemma new_CliContext_paths:
  "globalStoragePath (new_CliContext homedir folder fs)
     = path_join (path_join homedir ''.cline'') ''global''"
  "workspaceStoragePath (new_CliContext homedir folder fs) = path_join folder ''.cline''"
  "workspaceFolder (new_CliContext homedir folder fs) = folder"
  by (simp_all add: new_CliContext_def loadState_paths)

text \<open>
  Claim C8. When a file is missing or its text does not parse, the read that uses it gives
  the default and returns normally: \<^verbatim>\<open>loadState\<close> leaves the map of that file as it was,
  which in the constructor is the empty map; \<^verbatim>\<open>getTaskHistory\<close> returns the empty array;
  \<^verbatim>\<open>getApiConfiguration\<close> returns \<^verbatim>\<open>null\<close>. Each read catches every exception, so each is
  a total function here.
\<close>

theorem unreadable_file_gives_default:
  "(unreadable fs (globalStatePath c) \<longrightarrow> globalState (loadState c fs) = globalState c)
   \<and> (unreadable fs (workspaceStatePath c) \<longrightarrow> workspaceState (loadState c fs) = workspaceState c)
   \<and> (unreadable fs (secretsPath c) \<longrightarrow> secretStorage (loadState c fs) = secretStorage c)
   \<and> (unreadable fs (globalStatePath (new_CliContext homedir folder fs)) \<longrightarrow>
        globalState (new_CliContext homedir folder fs) = [])
   \<and> (unreadable fs (workspaceStatePath (new_CliContext homedir folder fs)) \<longrightarrow>
        workspaceState (new_CliContext homedir folder fs) = [])
   \<and> (unreadable fs (secretsPath (new_CliContext homedir folder fs)) \<longrightarrow>
        secretStorage (new_CliContext homedir folder fs) = [])
   \<and> (unreadable fs (historyPath c) \<longrightarrow> getTaskHistory c fs = JArray [])
   \<and> (unreadable fs (configPath c) \<longrightarrow> getApiConfiguration c fs = JNull)"
proof -
  have l: "unreadable fs (globalStatePath c) \<longrightarrow> globalState (loadState c fs) = globalState c"
    "unreadable fs (workspaceStatePath c) \<longrightarrow> workspaceState (loadState c fs) = workspaceState c"
    "unreadable fs (secretsPath c) \<longrightarrow> secretStorage (loadState c fs) = secretStorage c" for c
    by (simp_all add: loadState_def load_map_unreadable)
  have n: "unreadable fs (globalStatePath (new_CliContext homedir folder fs)) \<longrightarrow>
        globalState (new_CliContext homedir folder fs) = []"
    "unreadable fs (workspaceStatePath (new_CliContext homedir folder fs)) \<longrightarrow>
        workspaceState (new_CliContext homedir folder fs) = []"
    "unreadable fs (secretsPath (new_CliContext homedir folder fs)) \<longrightarrow>
        secretStorage (new_CliContext homedir folder fs) = []"
    by (simp_all add: new_CliContext_def loadState_def load_map_unreadable globalStatePath_def
        workspaceStatePath_def secretsPath_def)
  have h: "unreadable fs (historyPath c) \<longrightarrow> getTaskHistory c fs = JArray []"
    by (auto simp: unreadable_def getTaskHistory_def)
  have a: "unreadable fs (configPath c) \<longrightarrow> getApiConfiguration c fs = JNull"
    by (auto simp: unreadable_def getApiConfiguration_def)
  show ?thesis using l [of c] n h a by blast
qed

theorem unreadable_file_gives_default_witness:
  "unreadable damaged_disk ''/home/u/.cline/global/state.json''
   \<and> globalStatePath (new_CliContext ''/home/u'' ''/work'' damaged_disk)
       = ''/home/u/.cline/global/state.json''
   \<and> globalState (new_CliContext ''/home/u'' ''/work'' damaged_disk) = []
   \<and> workspaceState (new_CliContext ''/home/u'' ''/work'' damaged_disk)
       = [(''theme'', JString ''dark'')]
   \<and> unreadable damaged_disk (secretsPath (new_CliContext ''/home/u'' ''/work'' damaged_disk))
   \<and> secretStorage (new_CliContext ''/home/u'' ''/work'' damaged_disk) = []
   \<and> unreadable damaged_disk (historyPath (new_CliContext ''/home/u'' ''/work'' damaged_disk))
   \<and> getTaskHistory (new_CliContext ''/home/u'' ''/work'' damaged_disk) damaged_disk = JArray []
   \<and> unreadable damaged_disk (configPath (new_CliContext ''/home/u'' ''/work'' damaged_disk))
   \<and> getApiConfiguration (new_CliContext ''/home/u'' ''/work'' damaged_disk) damaged_disk = JNull
   \<and> unreadable empty_disk (workspaceStatePath (new_CliContext ''/home/u'' ''/work'' empty_disk))
   \<and> workspaceState (new_CliContext ''/home/u'' ''/work'' empty_disk) = []"
proof -
  let ?c = "new_CliContext ''/home/u'' ''/work'' damaged_disk"
  let ?e = "new_CliContext ''/home/u'' ''/work'' empty_disk"
  have g: "globalStatePath ?c = ''/home/u/.cline/global/state.json''"
    by (simp add: globalStatePath_def new_CliContext_paths path_join_def)
  have u1: "unreadable damaged_disk ''/home/u/.cline/global/state.json''"
    by (simp add: unreadable_def readFile_def damaged_disk_def)
  have u2: "unreadable damaged_disk (secretsPath ?c)"
    by (simp add: secretsPath_def new_CliContext_paths path_join_def unreadable_def
        readFile_def damaged_disk_def)
  have u3: "unreadable damaged_disk (historyPath ?c)"
    by (simp add: historyPath_def new_CliContext_paths path_join_def unreadable_def
        readFile_def damaged_disk_def)
  have u4: "unreadable damaged_disk (configPath ?c)"
    by (simp add: configPath_def new_CliContext_paths path_join_def unreadable_def
        readFile_def damaged_disk_def)
  have u5: "unreadable empty_disk (workspaceStatePath ?e)"
    by (simp add: unreadable_def readFile_def empty_disk_def)
  have w: "workspaceState ?c = [(''theme'', JString ''dark'')]"
    by (simp add: new_CliContext_def loadState_def load_map_def workspaceStatePath_def
        path_join_def readFile_def damaged_disk_def new_Map_def)
  note T = unreadable_file_gives_default [of damaged_disk ?c "''/home/u''" "''/work''"]
  note E = unreadable_file_gives_default [of empty_disk ?e "''/home/u''" "''/work''"]
  show ?thesis
    using T E g u1 [folded g] u1 u2 u3 u4 u5 w by blast
qed

section \<open>Every mutation rewrites the three state files\<close>

lemma state_paths_distinct:
  assumes "globalStoragePath c = path_join (path_join homedir ''.cline'') ''global''"
    and "workspaceStoragePath c = path_join (workspaceFolder c) ''.cline''"
  shows "globalStatePath c \<noteq> workspaceStatePath c"
    and "globalStatePath c \<noteq> secretsPath c"
    and "workspaceStatePath c \<noteq> secretsPath c"
proof -
  show "globalStatePath c \<noteq> workspaceStatePath c"
  proof
    assume "globalStatePath c = workspaceStatePath c"
    then have "rev (globalStatePath c) = rev (workspaceStatePath c)" by simp
    then show False
      by (simp add: globalStatePath_def workspaceStatePath_def assms path_join_def)
  qed
  show "globalStatePath c \<noteq> secretsPath c"
    by (simp add: globalStatePath_def secretsPath_def path_join_def)
  show "workspaceStatePath c \<noteq> secretsPath c"
  proof
    assume "workspaceStatePath c = secretsPath c"
    then have "rev (workspaceStatePath c) = rev (secretsPath c)" by simp
    then show False
      by (simp add: workspaceStatePath_def secretsPath_def path_join_def)
  qed
qed

lemma saveState_writes_all:
  assumes "writable fs (globalStatePath c)" and "writable fs (workspaceStatePath c)"
    and "writable fs (secretsPath c)"
    and "globalStatePath c \<noteq> workspaceStatePath c" and "globalStatePath c \<noteq> secretsPath c"
    and "workspaceStatePath c \<noteq> secretsPath c"
  shows "files (saveState c fs) =
     (files fs)(globalStatePath c \<mapsto> Stored (JObject (globalState c)),
                workspaceStatePath c \<mapsto> Stored (JObject (workspaceState c)),
                secretsPath c \<mapsto> Stored (JObject (secretStorage c)))"
  using assms by (simp add: saveState_def writeFile_def writable_def)

lemma mutate_saves:
  "mutate c m fs = (fst (mutate c m fs), saveState (fst (mutate c m fs)) fs)"
  by (cases m)
     (simp_all add: globalState_update_def workspaceState_update_def secrets_store_def
        secrets_delete_def Let_def)

lemma mutate_paths:
  "globalStoragePath (fst (mutate c m fs)) = globalStoragePath c"
  "workspaceStoragePath (fst (mutate c m fs)) = workspaceStoragePath c"
  "workspaceFolder (fst (mutate c m fs)) = workspaceFolder c"
  by (cases m;
      simp add: globalState_update_def workspaceState_update_def secrets_store_def
        secrets_delete_def Let_def)+

lemma mutate_state_paths:
  "globalStatePath (fst (mutate c m fs)) = globalStatePath c"
  "workspaceStatePath (fst (mutate c m fs)) = workspaceStatePath c"
  "secretsPath (fst (mutate c m fs)) = secretsPath c"
  by (simp_all add: globalStatePath_def workspaceStatePath_def secretsPath_def mutate_paths)

text \<open>
  Claim C10. Let \<open>c\<close> be a context with the storage paths that the constructor sets, and let
  the three files of the state store be writable. Then each mutation
  (\<^verbatim>\<open>globalState.update\<close>, \<^verbatim>\<open>workspaceState.update\<close>, \<^verbatim>\<open>secrets.store\<close>,
  \<^verbatim>\<open>secrets.delete\<close>) leaves in all three files the maps that are in memory after it: the
  global state file, the workspace state file and the secrets file are each rewritten,
  whatever they held before, and no other file changes.
\<close>

theorem mutate_rewrites_all_files:
  assumes "globalStoragePath c = path_join (path_join homedir ''.cline'') ''global''"
    and "workspaceStoragePath c = path_join (workspaceFolder c) ''.cline''"
    and "writable fs (globalStatePath c)" and "writable fs (workspaceStatePath c)"
    and "writable fs (secretsPath c)"
    and "mutate c m fs = (c', fs')"
  shows "files fs' (globalStatePath c) = Some (Stored (JObject (globalState c')))
     \<and> files fs' (workspaceStatePath c) = Some (Stored (JObject (workspaceState c')))
     \<and> files fs' (secretsPath c) = Some (Stored (JObject (secretStorage c')))
     \<and> (\<forall>p. p \<noteq> globalStatePath c \<and> p \<noteq> workspaceStatePath c \<and> p \<noteq> secretsPath c
            \<longrightarrow> files fs' p = files fs p)"
proof -
  have c': "c' = fst (mutate c m fs)" and fs': "fs' = saveState c' fs"
    using assms(6) mutate_saves [of c m fs] by simp_all
  note d = state_paths_distinct [OF assms(1,2)]
  have p: "globalStatePath c' = globalStatePath c" "workspaceStatePath c' = workspaceStatePath c"
    "secretsPath c' = secretsPath c"
    unfolding c' by (rule mutate_state_paths)+
  have "files fs' =
     (files fs)(globalStatePath c \<mapsto> Stored (JObject (globalState c')),
                workspaceStatePath c \<mapsto> Stored (JObject (workspaceState c')),
                secretsPath c \<mapsto> Stored (JObject (secretStorage c')))"
    unfolding fs' using saveState_writes_all [of fs c'] assms(3,4,5) d by (simp add: p)
  then show ?thesis using d by simp
qed

theorem mutate_rewrites_all_files_witness:
  "globalStoragePath (new_CliContext ''/home/u'' ''/work'' damaged_disk)
       = path_join (path_join ''/home/u'' ''.cline'') ''global''
   \<and> writable damaged_disk ''/home/u/.cline/global/state.json''
   \<and> writable damaged_disk ''/work/.cline/state.json''
   \<and> writable damaged_disk ''/home/u/.cline/global/secrets.json''
   \<and> files damaged_disk ''/home/u/.cline/global/state.json'' = Some Unparsable
   \<and> files damaged_disk ''/home/u/.cline/global/secrets.json'' = None
   \<and> files (snd (mutate (new_CliContext ''/home/u'' ''/work'' damaged_disk)
                    (WorkspaceUpdate ''mode'' (JString ''plan'')) damaged_disk))
        ''/home/u/.cline/global/state.json'' = Some (Stored (JObject []))
   \<and> files (snd (mutate (new_CliContext ''/home/u'' ''/work'' damaged_disk)
                    (WorkspaceUpdate ''mode'' (JString ''plan'')) damaged_disk))
        ''/work/.cline/state.json''
       = Some (Stored (JObject [(''theme'', JString ''dark''), (''mode'', JString ''plan'')]))
   \<and> files (snd (mutate (new_CliContext ''/home/u'' ''/work'' damaged_disk)
                    (WorkspaceUpdate ''mode'' (JString ''plan'')) damaged_disk))
        ''/home/u/.cline/global/secrets.json'' = Some (Stored (JObject []))
   \<and> files (snd (mutate (new_CliContext ''/home/u'' ''/work'' damaged_disk)
                    (WorkspaceUpdate ''mode'' (JString ''plan'')) damaged_disk))
        ''/home/u/.cline/global/task-history.json'' = Some Unparsable"
proof -
  let ?c = "new_CliContext ''/home/u'' ''/work'' damaged_disk"
  let ?m = "WorkspaceUpdate ''mode'' (JString ''plan'')"
  let ?c' = "fst (mutate ?c ?m damaged_disk)"
  let ?fs' = "snd (mutate ?c ?m damaged_disk)"
  have a1: "globalStoragePath ?c = path_join (path_join ''/home/u'' ''.cline'') ''global''"
    by (rule new_CliContext_paths)
  have a2: "workspaceStoragePath ?c = path_join (workspaceFolder ?c) ''.cline''"
    by (simp add: new_CliContext_paths)
  have g: "globalStatePath ?c = ''/home/u/.cline/global/state.json''"
    and w: "workspaceStatePath ?c = ''/work/.cline/state.json''"
    and s: "secretsPath ?c = ''/home/u/.cline/global/secrets.json''"
    by (simp_all add: globalStatePath_def workspaceStatePath_def secretsPath_def
        new_CliContext_paths path_join_def)
  have wr: "writable damaged_disk p" for p
    by (simp add: writable_def damaged_disk_def)
  have m: "mutate ?c ?m damaged_disk = (?c', ?fs')" by simp
  have st: "globalState ?c' = []"
    "workspaceState ?c' = [(''theme'', JString ''dark''), (''mode'', JString ''plan'')]"
    "secretStorage ?c' = []"
    by (simp_all add: workspaceState_update_def new_CliContext_def loadState_def load_map_def
        globalStatePath_def workspaceStatePath_def secretsPath_def path_join_def readFile_def
        damaged_disk_def new_Map_def Let_def)
  have f: "files damaged_disk ''/home/u/.cline/global/state.json'' = Some Unparsable"
    "files damaged_disk ''/home/u/.cline/global/secrets.json'' = None"
    "files damaged_disk ''/home/u/.cline/global/task-history.json'' = Some Unparsable"
    by (simp_all add: damaged_disk_def)
  note T = mutate_rewrites_all_files [OF a1 a2 wr wr wr m, unfolded g w s st]
  have h: "files ?fs' ''/home/u/.cline/global/task-history.json''
      = files damaged_disk ''/home/u/.cline/global/task-history.json''"
    using T by simp
  show ?thesis
    using a1 wr T f h by simp
qed

section \<open>The history keeps the newest hundred items\<close>

lemma take_append_take: "take n (xs @ take n ys) = take n (xs @ ys)"
  by (simp add: min_def)

lemma saveToHistory_array:
  assumes "getTaskHistory (context ctl) fs = JArray start"
    and "writable fs (historyPath (context ctl))"
  shows "files (saveToHistory ctl task response now1 now2 fs) (historyPath (context ctl))
       = Some (Stored (JArray (take 100 (historyItem task now1 now2 # start))))"
    and "getTaskHistory (context ctl) (saveToHistory ctl task response now1 now2 fs)
       = JArray (take 100 (historyItem task now1 now2 # start))"
    and "writable (saveToHistory ctl task response now1 now2 fs) (historyPath (context ctl))"
  using assms
  by (simp_all add: saveToHistory_def saveTaskHistory_def writeFile_def writable_def
      getTaskHistory_def readFile_def)

lemma save_all_history:
  assumes "getTaskHistory (context ctl) fs = JArray start"
    and "writable fs (historyPath (context ctl))"
    and "calls \<noteq> []"
  shows "files (save_all ctl calls fs) (historyPath (context ctl))
       = Some (Stored (JArray (take 100 (rev (map item_of calls) @ start))))"
  using assms
proof (induction calls arbitrary: fs start)
  case Nil
  then show ?case by simp
next
  case (Cons call calls)
  obtain task response now1 now2 where c: "call = (task, response, now1, now2)"
    by (cases call)
  let ?fs = "saveToHistory ctl task response now1 now2 fs"
  let ?start = "take 100 (historyItem task now1 now2 # start)"
  note s = saveToHistory_array [OF Cons.prems(1,2), of task response now1 now2]
  show ?case
  proof (cases "calls = []")
    case True
    then show ?thesis using s(1) c by simp
  next
    case False
    then have "files (save_all ctl calls ?fs) (historyPath (context ctl))
       = Some (Stored (JArray (take 100 (rev (map item_of calls) @ ?start))))"
      using Cons.IH [OF s(2) s(3)] by simp
    then show ?thesis
      using c take_append_take [of 100 "rev (map item_of calls)" "historyItem task now1 now2 # start"]
      by simp
  qed
qed

lemma newest_100:
  assumes "length calls = 101"
  shows "take 100 (rev (map item_of calls) @ start) = rev (map item_of (tl calls))"
proof -
  have "take 100 (rev (map item_of calls)) = rev (drop 1 (map item_of calls))"
    using assms by (simp add: take_rev)
  then show ?thesis
    using assms by (simp add: drop_Suc map_tl)
qed

text \<open>
  Claim C5. Let the history read from disk be a list \<open>start\<close> (the empty list when the file
  is missing or damaged) and let the history file be writable. One call of
  \<^verbatim>\<open>saveToHistory\<close> persists the new item followed by \<open>start\<close>, cut to the first 100
  elements. After 101 calls the persisted history holds exactly 100 items, the most recent
  first: the items of the last 100 calls in reverse order of the calls. The item of the
  first call and every item of \<open>start\<close> are gone.
\<close>

theorem history_keeps_newest_100:
  assumes "getTaskHistory (context ctl) fs = JArray start"
    and "writable fs (historyPath (context ctl))"
    and "length calls = 101"
  shows "files (saveToHistory ctl task response now1 now2 fs) (historyPath (context ctl))
           = Some (Stored (JArray (take 100 (historyItem task now1 now2 # start))))
     \<and> files (save_all ctl calls fs) (historyPath (context ctl))
           = Some (Stored (JArray (rev (map item_of (tl calls)))))
     \<and> getTaskHistory (context ctl) (save_all ctl calls fs)
           = JArray (rev (map item_of (tl calls)))
     \<and> length (rev (map item_of (tl calls))) = 100"
proof -
  have ne: "calls \<noteq> []" using assms(3) by auto
  have f: "files (save_all ctl calls fs) (historyPath (context ctl))
           = Some (Stored (JArray (rev (map item_of (tl calls)))))"
    using save_all_history [OF assms(1,2) ne] newest_100 [OF assms(3), of start] by simp
  then have g: "getTaskHistory (context ctl) (save_all ctl calls fs)
           = JArray (rev (map item_of (tl calls)))"
    by (simp add: getTaskHistory_def readFile_def)
  show ?thesis
    using saveToHistory_array(1) [OF assms(1,2)] f g assms(3) by simp
qed

theorem history_keeps_newest_100_witness:
  "getTaskHistory
      (context (new_CliController (new_CliContext ''/home/u'' ''/work'' empty_disk) gemini_config))
      empty_disk = JArray []
   \<and> writable empty_disk
       (historyPath
          (context (new_CliController (new_CliContext ''/home/u'' ''/work'' empty_disk)
             gemini_config)))
   \<and> length hundred_and_one_calls = 101
   \<and> getTaskHistory
       (context (new_CliController (new_CliContext ''/home/u'' ''/work'' empty_disk) gemini_config))
       (save_all (new_CliController (new_CliContext ''/home/u'' ''/work'' empty_disk) gemini_config)
          hundred_and_one_calls empty_disk)
       = JArray (rev (map item_of (tl hundred_and_one_calls)))
   \<and> length (rev (map item_of (tl hundred_and_one_calls))) = 100
   \<and> hd (rev (map item_of (tl hundred_and_one_calls))) = historyItem ''task'' 100 100
   \<and> last (rev (map item_of (tl hundred_and_one_calls))) = historyItem ''task'' 1 1"
proof -
  let ?ctl = "new_CliController (new_CliContext ''/home/u'' ''/work'' empty_disk) gemini_config"
  have a1: "getTaskHistory (context ?ctl) empty_disk = JArray []"
    by (simp add: getTaskHistory_def readFile_def empty_disk_def)
  have a2: "writable empty_disk (historyPath (context ?ctl))"
    by (simp add: writable_def empty_disk_def)
  have a3: "length hundred_and_one_calls = 101"
    by (simp add: hundred_and_one_calls_def)
  have t: "tl hundred_and_one_calls = map (\<lambda>i. (''task'', ''response'', i, i)) [1..<101]"
    by (simp add: hundred_and_one_calls_def map_tl [symmetric] tl_upt)
  have h: "hd (rev (map item_of (tl hundred_and_one_calls))) = historyItem ''task'' 100 100"
    unfolding t by (simp add: hd_rev last_map)
  have l: "last (rev (map item_of (tl hundred_and_one_calls))) = historyItem ''task'' 1 1"
    unfolding t by (simp add: last_rev hd_map upt_conv_Cons)
  note T = history_keeps_newest_100 [OF a1 a2 a3]
  show ?thesis
    using a1 a2 a3 T h l by simp
qed

section \<open>The history item of a completed turn\<close>

lemma saveToHistory_ignores_response:
  "saveToHistory ctl task response now1 now2 fs = saveToHistory ctl task response' now1 now2 fs"
  by (simp add: saveToHistory_def)

lemma historyItem_fields:
  "member (historyItem task now1 now2) ''task'' = Some (JString task)"
  "member (historyItem task now1 now2) ''id'' = Some (JString (show_nat now1))"
  "member (historyItem task now1 now2) ''ts'' = Some (JNumber (real now2))"
  "member (historyItem task now1 now2) ''tokensIn'' = Some (JNumber 0)"
  "member (historyItem task now1 now2) ''tokensOut'' = Some (JNumber 0)"
  "member (historyItem task now1 now2) ''cacheWrites'' = Some (JNumber 0)"
  "member (historyItem task now1 now2) ''cacheReads'' = Some (JNumber 0)"
  "member (historyItem task now1 now2) ''totalCost'' = Some (JNumber 0)"
  "member (historyItem task now1 now2) ''isFavorited'' = Some (JBool False)"
  "member (historyItem task now1 now2) ''response'' = None"
  by (simp_all add: historyItem_def)

text \<open>
  Claim C7, on the code. A turn in which the Anthropic handler streams the text \<open>Hi\<close>
  completes with the response \<open>Hi\<close>, and the item it persists holds the task, an identifier
  and a time from the clock, five zero counters and the favourite flag \<^verbatim>\<open>false\<close>, but no
  response: \<^verbatim>\<open>saveToHistory\<close> receives the response and does not use it.
\<close>

theorem executeTask_item_without_response:
  \<open>fst (executeTask
          (answering sample_runtime ok_response
             [Value ''data: {"type":"content_block_delta","delta":{"text":"Hi"}}\<newline>''])
          (new_CliController (new_CliContext ''/home/u'' ''/work'' empty_disk) anthropic_config)
          ''hello'' 1700000000000 1700000000001 empty_disk)
     = Inr ''Hi''
   \<and> files (snd (executeTask
          (answering sample_runtime ok_response
             [Value ''data: {"type":"content_block_delta","delta":{"text":"Hi"}}\<newline>''])
          (new_CliController (new_CliContext ''/home/u'' ''/work'' empty_disk) anthropic_config)
          ''hello'' 1700000000000 1700000000001 empty_disk))
        ''/home/u/.cline/global/task-history.json''
     = Some (Stored (JArray
         [JObject [(''id'', JString ''1700000000000''),
                   (''ts'', JNumber 1700000000001),
                   (''task'', JString ''hello''),
                   (''tokensIn'', JNumber 0),
                   (''tokensOut'', JNumber 0),
                   (''cacheWrites'', JNumber 0),
                   (''cacheReads'', JNumber 0),
                   (''totalCost'', JNumber 0),
                   (''isFavorited'', JBool False)]]))\<close>
proof -
  let ?R = \<open>answering sample_runtime ok_response
             [Value ''data: {"type":"content_block_delta","delta":{"text":"Hi"}}\<newline>'']\<close>
  let ?ctl = "new_CliController (new_CliContext ''/home/u'' ''/work'' empty_disk) anthropic_config"
  have h: "apiHandler ?ctl = AnthropicSimpleHandler ''key'' ''claude-3-5-sonnet-20241022''"
    by (simp add: new_CliController_def buildSimpleApiHandler_def anthropic_config_def
        new_AnthropicSimpleHandler_def or_default_def)
  have m: "createMessage ?R (apiHandler ?ctl) (systemPrompt_of ?ctl) ''hello''
      = ([Text (JString ''Hi'')], None)"
    unfolding h
    by (simp add: answering_def respond_def catch_yield_def try_block_def ok_def ok_response_def
        sample_runtime_def ascii_decode_def newline_def pop_rest_def pop_or_empty_def
        Anthropic_line_def startsWith_def sample_parses_def Anthropic_delta_def yield_if_def)
  have p: "historyPath (context ?ctl) = ''/home/u/.cline/global/task-history.json''"
    by (simp add: new_CliController_def historyPath_def new_CliContext_paths path_join_def)
  have ed: "files empty_disk p = None" "write_error empty_disk p = None" for p
    by (simp_all add: empty_disk_def)
  have s: "show_nat 1700000000000 = ''1700000000000''"
    by simp
  have e: "executeTask ?R ?ctl ''hello'' 1700000000000 1700000000001 empty_disk
      = (Inr ''Hi'', saveToHistory ?ctl ''hello'' ''Hi'' 1700000000000 1700000000001 empty_disk)"
    by (simp add: executeTask_def m)
  have f: "files (saveToHistory ?ctl ''hello'' ''Hi'' 1700000000000 1700000000001 empty_disk)
        ''/home/u/.cline/global/task-history.json''
      = Some (Stored (JArray [historyItem ''hello'' 1700000000000 1700000000001]))"
    by (simp add: saveToHistory_def getTaskHistory_def saveTaskHistory_def readFile_def
        writeFile_def p ed)
  show ?thesis
    unfolding e by (simp add: f historyItem_def s del: show_nat.simps)
qed

end
